theory Spec2Isabelle
  imports Main "HOL-Library.Sublist"
begin

section \<open>JavaScript values\<close>

text \<open>
  The configuration document and the session data of \<^verbatim>\<open>lib/app.js\<close> are plain
  JavaScript objects. Their values are modelled by \<open>jsval\<close>; an object whose properties
  the program adds and deletes by name is a map from property names to values.
  Strings are lists of 8-bit characters (code units below 256); numbers are restricted
  to integers (no NaN, no fractions).
\<close>

datatype jsval =
    JUndef
  | JNull
  | JBool bool
  | JNum int
  | JStr string
  | JArr "jsval list"
  | JObj "(string \<times> jsval) list"

type_synonym doc = "string \<rightharpoonup> jsval"

text \<open>Reading a property of an object: a missing property reads as \<open>undefined\<close>.\<close>

definition js_prop :: "doc \<Rightarrow> string \<Rightarrow> jsval" where
  "js_prop d k = (case d k of None \<Rightarrow> JUndef | Some v \<Rightarrow> v)"

text \<open>\<open>ToBoolean\<close>: what \<open>if (v)\<close>, \<open>!v\<close>, \<open>a || b\<close> and \<open>a && b\<close> test.\<close>

fun truthy :: "jsval \<Rightarrow> bool" where
  "truthy JUndef = False"
| "truthy JNull = False"
| "truthy (JBool b) = b"
| "truthy (JNum n) = (n \<noteq> 0)"
| "truthy (JStr s) = (s \<noteq> [])"
| "truthy (JArr xs) = True"
| "truthy (JObj kvs) = True"

text \<open>
  \<open>v.k\<close> on a value: \<open>None\<close> is the TypeError of reading a property of
  \<open>undefined\<close> or \<open>null\<close>. Only data properties are modelled (own properties of an
  object, \<open>length\<close> of an array or a string); any other read gives \<open>undefined\<close>.
\<close>

fun js_get :: "jsval \<Rightarrow> string \<Rightarrow> jsval option" where
  "js_get JUndef k = None"
| "js_get JNull k = None"
| "js_get (JObj kvs) k = Some (case map_of kvs k of None \<Rightarrow> JUndef | Some v \<Rightarrow> v)"
| "js_get (JArr xs) k = Some (if k = ''length'' then JNum (int (length xs)) else JUndef)"
| "js_get (JStr s) k = Some (if k = ''length'' then JNum (int (length s)) else JUndef)"
| "js_get (JBool b) k = Some JUndef"
| "js_get (JNum n) k = Some JUndef"

text \<open>
  \<open>a !== b\<close>, by content. This is exact when one of the two values is a primitive
  (\<open>undefined\<close>, \<open>null\<close>, a boolean, a number or a string), as the passwords and
  the credentials are; JavaScript compares two arrays or objects by identity, which is
  not modelled.
\<close>

definition strict_neq :: "jsval \<Rightarrow> jsval \<Rightarrow> bool" where
  "strict_neq a b = (a \<noteq> b)"

fun isPrimitive :: "jsval \<Rightarrow> bool" where
  "isPrimitive (JArr xs) = False"
| "isPrimitive (JObj kvs) = False"
| "isPrimitive v = True"

subsection \<open>String coercion and trimming\<close>

function nat_digits :: "nat \<Rightarrow> string" where
  "nat_digits n =
     (if n < 10 then [char_of (48 + n)]
      else nat_digits (n div 10) @ [char_of (48 + n mod 10)])"
  by pat_completeness auto
termination
  by (relation "measure (\<lambda>n. n)") auto

declare nat_digits.simps [simp del]

definition int_digits :: "int \<Rightarrow> string" where
  "int_digits i = (if i < 0 then CHR ''-'' # nat_digits (nat (- i)) else nat_digits (nat i))"

fun join_with :: "string \<Rightarrow> string list \<Rightarrow> string" where
  "join_with sep [] = []"
| "join_with sep [x] = x"
| "join_with sep (x # y # ys) = x @ sep @ join_with sep (y # ys)"

text \<open>
  \<open>v + ""\<close>, the string coercion. An array joins its elements with a comma, and
  \<open>null\<close> and \<open>undefined\<close> elements give the empty string.
\<close>

fun js_toString :: "jsval \<Rightarrow> string" where
  "js_toString JUndef = ''undefined''"
| "js_toString JNull = ''null''"
| "js_toString (JBool b) = (if b then ''true'' else ''false'')"
| "js_toString (JNum n) = int_digits n"
| "js_toString (JStr s) = s"
| "js_toString (JArr xs) =
     join_with '',''
       (map (\<lambda>x. if x = JUndef \<or> x = JNull then [] else js_toString x) xs)"
| "js_toString (JObj kvs) = ''[object Object]''"

text \<open>\<open>xs.join(sep)\<close> on an array.\<close>

definition js_join :: "jsval list \<Rightarrow> string \<Rightarrow> string" where
  "js_join xs sep =
     join_with sep (map (\<lambda>x. if x = JUndef \<or> x = JNull then [] else js_toString x) xs)"

text \<open>
  \<open>v.toString()\<close>, the method call: a TypeError (\<open>None\<close>) on \<open>undefined\<close> and
  \<open>null\<close>, the coercion otherwise.
\<close>

definition call_toString :: "jsval \<Rightarrow> string option" where
  "call_toString v = (if v = JUndef \<or> v = JNull then None else Some (js_toString v))"

text \<open>
  White space and line terminators of ECMAScript among the code units below 256:
  TAB, LF, VT, FF, CR, SPACE and NBSP.
\<close>

definition isWhiteSpace :: "char \<Rightarrow> bool" where
  "isWhiteSpace c =
     (c \<in> {CHR 0x09, CHR 0x0A, CHR 0x0B, CHR 0x0C, CHR 0x0D, CHR 0x20, CHR 0xA0})"

text \<open>\<open>String.prototype.trim\<close>.\<close>

definition js_trim :: "string \<Rightarrow> string" where
  "js_trim s = rev (dropWhile isWhiteSpace (rev (dropWhile isWhiteSpace s)))"

text \<open>\<open>trimFilter(input) { return (input+"").trim(); }\<close>\<close>

definition trimFilter :: "jsval \<Rightarrow> jsval" where
  "trimFilter input = JStr (js_trim (js_toString input))"

section \<open>The state of a run and the external collaborators\<close>

text \<open>
  The files under \<^verbatim>\<open>/data\<close>. Filesystem calls are taken to succeed (no I/O error),
  and \<open>mkdirSync\<close> records the directory itself only.
\<close>

datatype fsnode = File string | Dir

type_synonym filesystem = "string \<rightharpoonup> fsnode"

text \<open>What a run does that can be observed, in order. Terminal styling (chalk) is dropped.\<close>

datatype event =
    ConsoleLog string
  | StdoutWrite string
  | SplashShow
  | FsUnlink string
  | FsMkdir string
  | FsWriteFile string string
  | ConfigSerialize string jsval
  | ArchiveWriteEntry string jsval string jsval

text \<open>
  How a method ends: it returns (\<open>Running\<close>), the process exits with a status, an
  exception propagates, or the process waits for input that never comes.
\<close>

datatype status = Running | Exited int | Thrown string | Waiting

text \<open>An inquirer question, as far as \<^verbatim>\<open>app.js\<close> sets or reads its fields.\<close>

record question =
  qname :: string
  qtype :: string
  qmessage :: string
  qdefault :: jsval
  qfilter :: "(jsval \<Rightarrow> jsval) option"

text \<open>An entry of \<open>config.validateErrors\<close>.\<close>

record validate_error =
  keyword :: jsval
  params :: jsval

text \<open>An entry of \<^verbatim>\<open>features.json\<close>, with the \<open>checked\<close> mark the program sets.\<close>

record feature =
  fvalue :: jsval
  fchecked :: jsval

text \<open>
  Modelled from the spec: the class \<open>ApiKey\<close> of \<^verbatim>\<open>lib/apikey.js\<close>, which is not
  among the sources. A key record has an identifier, a group list and a secret;
  \<open>setId\<close> and \<open>setGroups\<close> store their argument and \<open>randomiseKey\<close> stores a newly
  generated secret.
\<close>

record apikey =
  ak_id :: string
  ak_groups :: "string list"
  ak_key :: "string option"

text \<open>A module of the \<^verbatim>\<open>prompters\<close> directory (not among the sources).\<close>

record prompter =
  pname :: string
  pprompts :: "doc \<times> doc \<Rightarrow> question list"
  ptemplates :: "doc \<Rightarrow> string list"

text \<open>
  The \<open>App\<close> object (\<open>this.config\<close>, \<open>this.sessionData\<close>, \<open>this.features\<close>,
  \<open>this.help\<close>) together with the world it acts on: the filesystem, the answers the
  operator will give (one entry per call of \<open>inquirer.prompt\<close>, giving for a question's
  name what was entered), the events so far and the number of secrets drawn from the
  entropy source.
\<close>

record app =
  config_data :: doc
  config_validateErrors :: "validate_error list option"
  sessionData :: doc
  features :: "feature list"
  help_data :: "doc option"
  fs :: filesystem
  inputs :: "(string \<rightharpoonup> jsval) list"
  trace :: "event list"
  rng_pos :: nat

text \<open>
  What \<^verbatim>\<open>app.js\<close> requires or calls and the sources do not contain: the process
  environment, Node's \<open>path\<close>, the modules \<open>name\<close>, \<open>ansi\<close>, \<open>config\<close>, \<open>htpasswd\<close>,
  \<open>apikey\<close>, \<open>cert\<close>, \<open>archive\<close>, the data files, the prompters and the template
  renderer. They are parameters of the model.
  \<^item> \<open>name_generate\<close> and \<open>randomColor\<close> are the node name and the colour drawn in
    this run (\<open>randomColor\<close>, lines 44-47, rests on \<open>Math.random\<close> and \<open>colorsys\<close>);
  \<^item> \<open>Config_data\<close> and \<open>Config_validateErrors\<close> are the fields of \<open>new Config()\<close>;
  \<^item> \<open>deserialize\<close> throws (\<open>Inl\<close>) or gives the loaded data and validation errors;
  \<^item> \<open>serialize\<close> and \<open>writeEntry\<close> give their success and the filesystem afterwards;
  \<^item> \<open>randomBytes i\<close> is the \<open>i\<close>-th secret the entropy source yields;
  \<^item> \<open>cert_create\<close> throws (\<open>None\<close>) or gives its result object;
  \<^item> \<open>renderFile\<close> rejects (\<open>None\<close>) or gives the rendered text.
\<close>

record externals =
  env :: "string \<rightharpoonup> string"
  dirname :: string
  path_join :: "string list \<Rightarrow> string"
  path_dirname :: "string \<Rightarrow> string"
  name_generate :: string
  randomColor :: string
  ansi_clear :: string
  ansi_reset :: string
  features_json :: "feature list"
  help_json :: doc
  prompters :: "prompter list"
  Config_data :: doc
  Config_validateErrors :: "validate_error list option"
  deserialize ::
    "string \<Rightarrow> jsval \<Rightarrow> filesystem \<Rightarrow> jsval + (doc \<times> validate_error list option)"
  serialize :: "string \<Rightarrow> jsval \<Rightarrow> doc \<Rightarrow> filesystem \<Rightarrow> bool \<times> filesystem"
  htpasswd :: "jsval \<Rightarrow> jsval"
  randomBytes :: "nat \<Rightarrow> string"
  getConfigEntry :: "apikey \<Rightarrow> jsval"
  getClientInformation :: "apikey \<Rightarrow> jsval"
  cert_cns :: "jsval \<Rightarrow> jsval"
  cert_create :: "jsval \<Rightarrow> jsval option"
  renderFile :: "string \<Rightarrow> doc \<Rightarrow> string option"
  writeEntry ::
    "string \<Rightarrow> jsval \<Rightarrow> string \<Rightarrow> jsval \<Rightarrow> filesystem \<Rightarrow> bool \<times> filesystem"

section \<open>Constants and small helpers of \<^verbatim>\<open>app.js\<close>\<close>

text \<open>
  \<open>keyIds\<close>, in the order \<open>for (let keyId in keyIds)\<close> enumerates it: the four names
  are not array indices, so they come in the order they are written.
\<close>

definition keyIds :: "(string \<times> string list) list" where
  "keyIds =
     [(''000'', [''stats'']),
      (''001'', [''stats'', ''watcher'']),
      (''002'', [''stats'', ''watcher'', ''spender'']),
      (''003'', [''stats'', ''watcher'', ''spender'', ''admin''])]"

definition configArchiveFileName :: string where
  "configArchiveFileName = ''config.7z''"

definition keyArchiveFileName :: string where
  "keyArchiveFileName = ''client.7z''"

definition prefix_msg :: string where
  "prefix_msg = ''Cyphernode: ''"

definition destinationPath :: "externals \<Rightarrow> string \<Rightarrow> string" where
  "destinationPath X relPath = path_join X [''/data'', relPath]"

definition templatePath :: "externals \<Rightarrow> string \<Rightarrow> string" where
  "templatePath X relPath = path_join X [dirname X, ''..'', ''templates'', relPath]"

definition exitStatusPath :: "externals \<Rightarrow> string" where
  "exitStatusPath X = path_join X [''/data'', ''exitStatus.sh'']"

definition existsSync :: "filesystem \<Rightarrow> string \<Rightarrow> bool" where
  "existsSync f p = (f p \<noteq> None)"

definition log_event :: "event \<Rightarrow> app \<Rightarrow> app" where
  "log_event e s = s\<lparr>trace := trace s @ [e]\<rparr>"

definition console_log :: "string \<Rightarrow> app \<Rightarrow> app" where
  "console_log m s = log_event (ConsoleLog m) s"

definition unlinkSync :: "string \<Rightarrow> app \<Rightarrow> app" where
  "unlinkSync p s = log_event (FsUnlink p) (s\<lparr>fs := (fs s)(p := None)\<rparr>)"

definition writeFileSync :: "string \<Rightarrow> string \<Rightarrow> app \<Rightarrow> app" where
  "writeFileSync p c s = log_event (FsWriteFile p c) (s\<lparr>fs := (fs s)(p \<mapsto> File c)\<rparr>)"

definition mkdirSync :: "string \<Rightarrow> app \<Rightarrow> app" where
  "mkdirSync p s = log_event (FsMkdir p) (s\<lparr>fs := (fs s)(p \<mapsto> Dir)\<rparr>)"

text \<open>
  \<open>process.exit(code)\<close>. Without an argument the exit status is \<open>process.exitCode\<close>,
  which \<^verbatim>\<open>app.js\<close> never sets, so it is the success status 0.
\<close>

definition process_exit :: "int option \<Rightarrow> status" where
  "process_exit code = Exited (case code of None \<Rightarrow> 0 | Some c \<Rightarrow> c)"

text \<open>Sequencing: the next step runs only after a step that returned.\<close>

definition and_then :: "status \<times> app \<Rightarrow> (app \<Rightarrow> status \<times> app) \<Rightarrow> status \<times> app" where
  "and_then r f = (if fst r = Running then f (snd r) else r)"

text \<open>
  \<open>inquirer.prompt(questions)\<close> on what the operator enters: each question's answer
  is the entry (the question's default when nothing was entered; without a default,
  \<open>true\<close> for a confirmation and the empty string otherwise), passed through the
  question's filter. The questions are answered in order, so of two questions with one
  name the later one gives the answer.
\<close>

definition inquirer_answer :: "(string \<rightharpoonup> jsval) \<Rightarrow> question \<Rightarrow> jsval" where
  "inquirer_answer entered q =
     (let raw = (case entered (qname q) of
                   Some v \<Rightarrow> v
                 | None \<Rightarrow>
                     if qdefault q \<noteq> JUndef then qdefault q
                     else if qtype q = ''confirm'' then JBool True
                     else JStr [])
      in case qfilter q of None \<Rightarrow> raw | Some f \<Rightarrow> f raw)"

definition inquirer_prompt :: "question list \<Rightarrow> (string \<rightharpoonup> jsval) \<Rightarrow> doc" where
  "inquirer_prompt qs entered =
     fold (\<lambda>q answers. answers(qname q \<mapsto> inquirer_answer entered q)) qs Map.empty"

text \<open>
  \<open>prompt(questions)\<close>: \<open>{}\<close> when there are no questions, the answers otherwise.
  \<open>None\<close>: the operator's answers are used up and the call never returns.
\<close>

definition prompt :: "question list option \<Rightarrow> app \<Rightarrow> doc option \<times> app" where
  "prompt questions s =
     (case questions of
        None \<Rightarrow> (Some Map.empty, s)
      | Some qs \<Rightarrow>
          (case inputs s of
             [] \<Rightarrow> (None, s)
           | entered # rest \<Rightarrow> (Some (inquirer_prompt qs entered), s\<lparr>inputs := rest\<rparr>)))"

section \<open>\<open>start\<close>: the session data\<close>

text \<open>\<open>process.env.NAME || d\<close>: an unset or empty variable gives \<open>d\<close>.\<close>

definition env_or :: "externals \<Rightarrow> string \<Rightarrow> jsval \<Rightarrow> jsval" where
  "env_or X name d =
     (case env X name of None \<Rightarrow> d | Some v \<Rightarrow> if v \<noteq> [] then JStr v else d)"

text \<open>\<open>process.env.NAME\<close> as a value.\<close>

definition env_val :: "externals \<Rightarrow> string \<Rightarrow> jsval" where
  "env_val X name = (case env X name of None \<Rightarrow> JUndef | Some v \<Rightarrow> JStr v)"

text \<open>
  \<open>process.env.SETUP_DIR || path.join(process.env.HOME, 'cyphernode')\<close>; \<open>path.join\<close>
  throws a TypeError (\<open>None\<close>) when \<open>HOME\<close> is not set.
\<close>

definition setupDir_init :: "externals \<Rightarrow> jsval option" where
  "setupDir_init X =
     (if truthy (env_val X ''SETUP_DIR'') then Some (env_val X ''SETUP_DIR'')
      else (case env X ''HOME'' of
              None \<Rightarrow> None
            | Some h \<Rightarrow> Some (JStr (path_join X [h, ''cyphernode'']))))"

text \<open>
  The object literal assigned to \<open>this.sessionData\<close> (lines 78-96); \<open>dir\<close> is the
  value of its \<open>setupDir\<close>.
\<close>

definition sessionData_init :: "externals \<Rightarrow> doc \<Rightarrow> jsval \<Rightarrow> doc" where
  "sessionData_init X options dir =
     [''defaultDataDirBase'' \<mapsto> env_or X ''DEFAULT_DATADIR_BASE'' (env_val X ''HOME''),
      ''setupDir'' \<mapsto> dir,
      ''default_username'' \<mapsto> env_or X ''DEFAULT_USER'' (JStr []),
      ''gatekeeper_version'' \<mapsto> env_or X ''GATEKEEPER_VERSION'' (JStr ''latest''),
      ''proxy_version'' \<mapsto> env_or X ''PROXY_VERSION'' (JStr ''latest''),
      ''proxycron_version'' \<mapsto> env_or X ''PROXYCRON_VERSION'' (JStr ''latest''),
      ''pycoin_version'' \<mapsto> env_or X ''PYCOIN_VERSION'' (JStr ''latest''),
      ''otsclient_version'' \<mapsto> env_or X ''OTSCLIENT_VERSION'' (JStr ''latest''),
      ''bitcoin_version'' \<mapsto> env_or X ''BITCOIN_VERSION'' (JStr ''latest''),
      ''lightning_version'' \<mapsto> env_or X ''LIGHTNING_VERSION'' (JStr ''latest''),
      ''sparkwallet_version'' \<mapsto> env_or X ''SPARKWALLET_VERSION'' (JStr ''standalone''),
      ''noWizard'' \<mapsto> JBool (truthy (js_prop options ''noWizard'')),
      ''noSplashScreen'' \<mapsto> JBool (truthy (js_prop options ''noSplashScreen'')),
      ''lightning_nodename'' \<mapsto> JStr (name_generate X),
      ''lightning_color'' \<mapsto> JStr (randomColor X),
      ''installer_cleanup'' \<mapsto> JBool False,
      ''devmode'' \<mapsto> env_or X ''DEVMODE'' (JBool False)]"

text \<open>The block guarded by \<open>process.env.VERSION_OVERRIDE === 'true'\<close> (lines 98-111).\<close>

definition versionOverride :: "externals \<Rightarrow> doc \<Rightarrow> doc" where
  "versionOverride X sd =
     (if env X ''VERSION_OVERRIDE'' = Some ''true''
      then sd(''lightning_version'' \<mapsto> JStr ''latest'',
              ''bitcoin_version'' \<mapsto> JStr ''latest'',
              ''otsclient_version'' \<mapsto> JStr ''latest'',
              ''pycoin_version'' \<mapsto> JStr ''latest'',
              ''proxycron_version'' \<mapsto> JStr ''latest'',
              ''proxy_version'' \<mapsto> JStr ''latest'',
              ''gatekeeper_version'' \<mapsto> JStr ''latest'',
              ''sparkwallet_version'' \<mapsto> JStr ''standalone'')
      else sd)"

text \<open>The per-service version pins of the session data.\<close>

definition versionPins :: "string list" where
  "versionPins =
     [''gatekeeper_version'', ''proxy_version'', ''proxycron_version'', ''pycoin_version'',
      ''otsclient_version'', ''bitcoin_version'', ''lightning_version'',
      ''sparkwallet_version'']"

section \<open>\<open>setupConfigArchive\<close>\<close>

definition newPasswordQuestions :: "question list" where
  "newPasswordQuestions =
     [\<lparr>qname = ''password0'', qtype = ''password'',
       qmessage = prefix_msg @ ''Choose your configuration password'',
       qdefault = JUndef, qfilter = Some trimFilter\<rparr>,
      \<lparr>qname = ''password1'', qtype = ''password'',
       qmessage = prefix_msg @ ''Confirm your configuration password'',
       qdefault = JUndef, qfilter = Some trimFilter\<rparr>]"

definition passwordQuestions :: "question list" where
  "passwordQuestions =
     [\<lparr>qname = ''password'', qtype = ''password'',
       qmessage = prefix_msg @ ''Enter your configuration password?'',
       qdefault = JUndef, qfilter = Some trimFilter\<rparr>]"

text \<open>
  The condition of the loop of lines 154-172:
  \<open>!r.password0 || !r.password1 || r.password0 !== r.password1\<close>.
\<close>

definition passwordPairRejected :: "doc \<Rightarrow> bool" where
  "passwordPairRejected r =
     (\<not> truthy (js_prop r ''password0'') \<or> \<not> truthy (js_prop r ''password1'')
      \<or> strict_neq (js_prop r ''password0'') (js_prop r ''password1''))"

text \<open>The notice at the head of the loop's body (lines 156-158).\<close>

definition mismatchNotice :: "doc \<Rightarrow> app \<Rightarrow> app" where
  "mismatchNotice r s =
     (if truthy (js_prop r ''password0'') \<and> truthy (js_prop r ''password1'')
         \<and> strict_neq (js_prop r ''password0'') (js_prop r ''password1'')
      then console_log (''Passwords do not match'' @ [CHR 0x0A]) s
      else s)"

function newPasswordLoop :: "doc \<Rightarrow> app \<Rightarrow> status \<times> doc \<times> app" where
  "newPasswordLoop r s =
     (if passwordPairRejected r
      then (case prompt (Some newPasswordQuestions) (mismatchNotice r s) of
              (None, s') \<Rightarrow> (Waiting, r, s')
            | (Some r', s') \<Rightarrow> newPasswordLoop r' s')
      else (Running, r, s))"
  by pat_completeness auto
termination
  by (relation "measure (\<lambda>(r, s). length (inputs s))")
     (auto simp: prompt_def mismatchNotice_def console_log_def log_event_def
           split: list.splits if_splits)

declare newPasswordLoop.simps [simp del]

text \<open>The loop of lines 181-188: \<open>while (!r.password)\<close>.\<close>

function passwordLoop :: "doc \<Rightarrow> app \<Rightarrow> status \<times> doc \<times> app" where
  "passwordLoop r s =
     (if \<not> truthy (js_prop r ''password'')
      then (case prompt (Some passwordQuestions) s of
              (None, s') \<Rightarrow> (Waiting, r, s')
            | (Some r', s') \<Rightarrow> passwordLoop r' s')
      else (Running, r, s))"
  by pat_completeness auto
termination
  by (relation "measure (\<lambda>(r, s). length (inputs s))")
     (auto simp: prompt_def split: list.splits if_splits)

declare passwordLoop.simps [simp del]

text \<open>
  \<open>isChecked(name, value)\<close>: the falsy property itself, or whether \<open>indexOf\<close> finds the
  value (in an array, or as a substring of a string). \<open>None\<close>: the TypeError of calling
  \<open>indexOf\<close> on a value that has none.
\<close>

definition isChecked :: "doc \<Rightarrow> string \<Rightarrow> jsval \<Rightarrow> jsval option" where
  "isChecked d name v =
     (let p = js_prop d name in
      if \<not> truthy p then Some p
      else (case p of
              JArr xs \<Rightarrow> Some (JBool (v \<in> set xs))
            | JStr str \<Rightarrow> Some (JBool (sublist (js_toString v) str))
            | _ \<Rightarrow> None))"

fun checkFeatures :: "doc \<Rightarrow> feature list \<Rightarrow> feature list option" where
  "checkFeatures d [] = Some []"
| "checkFeatures d (c # cs) =
     (case isChecked d ''features'' (fvalue c) of
        None \<Rightarrow> None
      | Some b \<Rightarrow>
          (case checkFeatures d cs of
             None \<Rightarrow> None
           | Some cs' \<Rightarrow> Some (c\<lparr>fchecked := b\<rparr> # cs')))"

text \<open>Lines 214-218: the admin hash and the feature marks.\<close>

definition finishSetup :: "externals \<Rightarrow> app \<Rightarrow> status \<times> app" where
  "finishSetup X s =
     (let s1 = s\<lparr>config_data :=
                  (config_data s)(''adminhash'' \<mapsto>
                     htpasswd X (js_prop (sessionData s) ''configurationPassword''))\<rparr>
      in case checkFeatures (config_data s1) (features s1) of
           None \<Rightarrow> (Thrown ''TypeError'', s1)
         | Some fs' \<Rightarrow> (Running, s1\<lparr>features := fs'\<rparr>))"

text \<open>Lines 152-173: no configuration archive yet.\<close>

definition createWithNewPassword :: "externals \<Rightarrow> app \<Rightarrow> status \<times> app" where
  "createWithNewPassword X s =
     (case newPasswordLoop Map.empty (log_event (StdoutWrite (ansi_clear X @ ansi_reset X)) s) of
        (st, r, s') \<Rightarrow>
          if st = Running
          then (Running,
                s'\<lparr>sessionData :=
                     (sessionData s')(''configurationPassword'' \<mapsto> js_prop r ''password0'')\<rparr>)
          else (st, s'))"

text \<open>Lines 176-190: the password of an existing archive.\<close>

definition resolvePassword :: "externals \<Rightarrow> app \<Rightarrow> status \<times> app" where
  "resolvePassword X s =
     (if truthy (env_val X ''CFG_PASSWORD'')
      then (Running,
            s\<lparr>sessionData :=
                 (sessionData s)(''configurationPassword'' \<mapsto> env_val X ''CFG_PASSWORD'')\<rparr>)
      else (case passwordLoop Map.empty (log_event (StdoutWrite (ansi_reset X)) s) of
              (st, r, s') \<Rightarrow>
                if st = Running
                then (Running,
                      s'\<lparr>sessionData :=
                           (sessionData s')(''configurationPassword'' \<mapsto> js_prop r ''password'')\<rparr>)
                else (st, s')))"

text \<open>
  Lines 191-207: the inner \<open>try\<close>. Whatever \<open>deserialize\<close> throws is caught by the
  inner \<open>catch\<close>, which prints it and calls \<open>process.exit()\<close> with no argument.
\<close>

definition loadArchive :: "externals \<Rightarrow> app \<Rightarrow> status \<times> app" where
  "loadArchive X s =
     (case deserialize X (destinationPath X configArchiveFileName)
             (js_prop (sessionData s) ''configurationPassword'') (fs s) of
        Inl e \<Rightarrow> (process_exit None, console_log (js_toString e) s)
      | Inr (d, errs) \<Rightarrow>
          (let s1 = s\<lparr>config_data := d, config_validateErrors := errs\<rparr> in
           (Running,
            if d ''gatekeeper_clientkeyspassword'' \<noteq> None
            then s1\<lparr>sessionData :=
                      (sessionData s1)(''gatekeeper_clientkeyspassword_c'' \<mapsto>
                         js_prop d ''gatekeeper_clientkeyspassword'')\<rparr>
            else s1)))"

text \<open>
  \<open>setupConfigArchive\<close>. The outer \<open>catch\<close> of lines 208-211 (``config archive is
  corrupt.'', exit status 1) handles what the password prompt throws; nothing that
  \<open>deserialize\<close> throws reaches it, and the prompt of this model does not throw.
\<close>

definition setupConfigArchive :: "externals \<Rightarrow> app \<Rightarrow> status \<times> app" where
  "setupConfigArchive X s =
     (let s0 = s\<lparr>config_data := Config_data X,
                  config_validateErrors := Config_validateErrors X\<rparr>
      in if \<not> existsSync (fs s0) (destinationPath X configArchiveFileName)
         then and_then (createWithNewPassword X s0) (finishSetup X)
         else and_then (and_then (resolvePassword X s0) (loadArchive X)) (finishSetup X))"

section \<open>\<open>startWizard\<close>\<close>

definition getDefault :: "app \<Rightarrow> string \<Rightarrow> jsval" where
  "getDefault s name =
     (case config_data s name of
        Some v \<Rightarrow> v
      | None \<Rightarrow> (case sessionData s name of Some v \<Rightarrow> v | None \<Rightarrow> JUndef))"

text \<open>
  The properties to mark (lines 241-242). \<open>sessionData.markProperties\<close> is only ever
  assigned the array of missing properties (line 138).
\<close>

definition markProperties :: "app \<Rightarrow> jsval list" where
  "markProperties s =
     (case js_prop (sessionData s) ''markProperties'' of JArr xs \<Rightarrow> xs | _ \<Rightarrow> [])"

text \<open>The suffix of line 246, without its two warning signs (which are not ASCII).\<close>

definition newOptionMark :: string where
  "newOptionMark = '' ( new option )''"

definition markPrompt :: "jsval list \<Rightarrow> question \<Rightarrow> question" where
  "markPrompt marks q =
     (if JStr (qname q) \<in> set marks then q\<lparr>qmessage := qmessage q @ newOptionMark\<rparr> else q)"

fun collectPrompts :: "app \<Rightarrow> prompter list \<Rightarrow> question list" where
  "collectPrompts s [] = []"
| "collectPrompts s (m # ms) =
     map (markPrompt (markProperties s)) (pprompts m (config_data s, sessionData s))
     @ collectPrompts s ms"

definition startWizard :: "externals \<Rightarrow> app \<Rightarrow> status \<times> app" where
  "startWizard X s =
     (case prompt (Some [\<lparr>qname = ''enablehelp'', qtype = ''confirm'',
                          qmessage = prefix_msg @ ''Enable help?'',
                          qdefault = getDefault s ''enablehelp'', qfilter = None\<rparr>]) s of
        (None, s1) \<Rightarrow> (Waiting, s1)
      | (Some r, s1) \<Rightarrow>
          (let s2 = s1\<lparr>config_data := (config_data s1)(''enablehelp'' \<mapsto> js_prop r ''enablehelp'')\<rparr>;
               s3 = (if truthy (js_prop (config_data s2) ''enablehelp'')
                     then s2\<lparr>help_data := Some (help_json X)\<rparr> else s2)
           in case prompt (Some (collectPrompts s3 (prompters X))) s3 of
                (None, s4) \<Rightarrow> (Waiting, s4)
              | (Some props, s4) \<Rightarrow> (Running, s4\<lparr>config_data := config_data s4 ++ props\<rparr>)))"

section \<open>\<open>processProps\<close> and \<open>createRandomKey\<close>\<close>

text \<open>
  Modelled from the spec: \<open>new ApiKey()\<close>, \<open>setId\<close>, \<open>setGroups\<close> and \<open>randomiseKey\<close>
  of \<^verbatim>\<open>lib/apikey.js\<close>, which is not among the sources. \<open>randomiseKey\<close> draws the
  next secret of the entropy source.
\<close>

definition ApiKey_new :: apikey where
  "ApiKey_new = \<lparr>ak_id = [], ak_groups = [], ak_key = None\<rparr>"

definition setId :: "string \<Rightarrow> apikey \<Rightarrow> apikey" where
  "setId i k = k\<lparr>ak_id := i\<rparr>"

definition setGroups :: "string list \<Rightarrow> apikey \<Rightarrow> apikey" where
  "setGroups gs k = k\<lparr>ak_groups := gs\<rparr>"

definition randomiseKey :: "externals \<Rightarrow> apikey \<Rightarrow> app \<Rightarrow> apikey \<times> app" where
  "randomiseKey X k s =
     (k\<lparr>ak_key := Some (randomBytes X (rng_pos s))\<rparr>, s\<lparr>rng_pos := Suc (rng_pos s)\<rparr>)"

text \<open>\<open>createRandomKey(id, groups)\<close>: \<open>undefined\<close> (\<open>None\<close>) without an id or groups.\<close>

definition createRandomKey ::
  "externals \<Rightarrow> string \<Rightarrow> string list \<Rightarrow> app \<Rightarrow> apikey option \<times> app" where
  "createRandomKey X i groups s =
     (if i = [] \<or> groups = [] then (None, s)
      else (case randomiseKey X (setGroups groups (setId i ApiKey_new)) s of
              (k, s') \<Rightarrow> (Some k, s')))"

text \<open>
  The loop of lines 270-274, with the key records it creates beside the two lists it
  fills. \<open>None\<close>: the TypeError of calling a method on \<open>undefined\<close>.
\<close>

fun createKeys ::
  "externals \<Rightarrow> (string \<times> string list) list \<Rightarrow> apikey list \<Rightarrow> app \<Rightarrow> (apikey list \<times> app) option"
  where
  "createKeys X [] ks s = Some (ks, s)"
| "createKeys X ((keyId, groups) # rest) ks s =
     (case createRandomKey X keyId groups s of
        (None, s') \<Rightarrow> None
      | (Some apikey, s') \<Rightarrow> createKeys X rest (ks @ [apikey]) s')"

text \<open>The object assigned to \<open>gatekeeper_keys\<close> (lines 276-279).\<close>

definition keysObject :: "externals \<Rightarrow> apikey list \<Rightarrow> jsval" where
  "keysObject X ks =
     JObj [(''configEntries'', JArr (map (getConfigEntry X) ks)),
           (''clientInformation'', JArr (map (getClientInformation X) ks))]"

text \<open>
  The condition of lines 262-263; \<open>None\<close> is the TypeError of reading
  \<open>configEntries\<close> or \<open>length\<close> of \<open>undefined\<close> or \<open>null\<close>.
\<close>

definition keysDue :: "doc \<Rightarrow> bool option" where
  "keysDue d =
     (if truthy (js_prop d ''gatekeeper_recreatekeys'') then Some True
      else (case js_get (js_prop d ''gatekeeper_keys'') ''configEntries'' of
              None \<Rightarrow> None
            | Some entries \<Rightarrow>
                (case js_get entries ''length'' of
                   None \<Rightarrow> None
                 | Some n \<Rightarrow> Some (n = JNum 0))))"

text \<open>Lines 265-279: the body of the first \<open>if\<close>.\<close>

definition regenerateKeys :: "externals \<Rightarrow> app \<Rightarrow> status \<times> app" where
  "regenerateKeys X s =
     (let s1 = s\<lparr>config_data := (config_data s)(''gatekeeper_recreatekeys'' := None)\<rparr>
      in case createKeys X keyIds [] s1 of
           None \<Rightarrow> (Thrown ''TypeError'', s1)
         | Some (ks, s2) \<Rightarrow>
             (Running,
              s2\<lparr>config_data := (config_data s2)(''gatekeeper_keys'' \<mapsto> keysObject X ks)\<rparr>))"

text \<open>Lines 262-281.\<close>

definition processKeys :: "externals \<Rightarrow> app \<Rightarrow> status \<times> app" where
  "processKeys X s =
     (case keysDue (config_data s) of
        None \<Rightarrow> (Thrown ''TypeError'', s)
      | Some due \<Rightarrow> if due then regenerateKeys X s else (Running, s))"

definition certFailed :: "app \<Rightarrow> app" where
  "certFailed s = console_log ''error! Gatekeeper cert was not created'' s"

text \<open>
  Lines 293-303, the \<open>try\<close> with its \<open>catch\<close>: every exception (a throwing
  \<open>cert.create\<close>, a result without \<open>code\<close>, \<open>key\<close> or \<open>cert\<close>) ends in the same
  message. The key is assigned before the certificate is read.
\<close>

definition read_toString :: "jsval \<Rightarrow> string \<Rightarrow> string option" where
  "read_toString v k = (case js_get v k of None \<Rightarrow> None | Some x \<Rightarrow> call_toString x)"

definition tryCreateCert :: "externals \<Rightarrow> app \<Rightarrow> app" where
  "tryCreateCert X s =
     (case cert_create X (js_prop (sessionData s) ''cns'') of
        None \<Rightarrow> certFailed s
      | Some result \<Rightarrow>
          (case js_get result ''code'' of
             None \<Rightarrow> certFailed s
           | Some code \<Rightarrow>
               if code = JNum 0
               then (case read_toString result ''key'' of
                       None \<Rightarrow> certFailed s
                     | Some k \<Rightarrow>
                         (let s1 = s\<lparr>config_data := (config_data s)(''gatekeeper_sslkey'' \<mapsto> JStr k)\<rparr>
                          in case read_toString result ''cert'' of
                               None \<Rightarrow> certFailed s1
                             | Some c \<Rightarrow>
                                 s1\<lparr>config_data :=
                                      (config_data s1)(''gatekeeper_sslcert'' \<mapsto> JStr c)\<rparr>))
               else certFailed s))"

text \<open>The condition of lines 287-289.\<close>

definition certDue :: "doc \<Rightarrow> bool" where
  "certDue d =
     (truthy (js_prop d ''gatekeeper_recreatecert'')
      \<or> \<not> truthy (js_prop d ''gatekeeper_sslcert'')
      \<or> \<not> truthy (js_prop d ''gatekeeper_sslkey''))"

text \<open>Lines 290-292: what precedes the \<open>try\<close> (the message without its two emoji).\<close>

definition beforeCertAttempt :: "app \<Rightarrow> app" where
  "beforeCertAttempt s =
     console_log ''Generating gatekeeper cert. This may take a while''
       (s\<lparr>config_data := (config_data s)(''gatekeeper_recreatecert'' := None)\<rparr>)"

text \<open>Lines 283-304.\<close>

definition processCert :: "externals \<Rightarrow> app \<Rightarrow> status \<times> app" where
  "processCert X s =
     (let s1 = s\<lparr>sessionData :=
                  (sessionData s)(''cns'' \<mapsto> cert_cns X (js_prop (config_data s) ''gatekeeper_cns''))\<rparr>
      in if certDue (config_data s1)
         then (Running, tryCreateCert X (beforeCertAttempt s1))
         else (Running, s1))"

definition processProps :: "externals \<Rightarrow> app \<Rightarrow> status \<times> app" where
  "processProps X s = and_then (processKeys X s) (processCert X)"

section \<open>\<open>writeFiles\<close>\<close>

text \<open>Lines 320-326.\<close>

definition writeConfigArchive :: "externals \<Rightarrow> app \<Rightarrow> app" where
  "writeConfigArchive X s =
     (let s1 = console_log (''   create '' @ configArchiveFileName) s;
          pw = js_prop (sessionData s1) ''configurationPassword'';
          r = serialize X (destinationPath X configArchiveFileName) pw (config_data s1) (fs s1);
          s2 = log_event (ConfigSerialize (destinationPath X configArchiveFileName) pw)
                 (s1\<lparr>fs := snd r\<rparr>)
      in if \<not> fst r then console_log ''error! Config archive was not written'' s2 else s2)"

definition pathProps :: "string list" where
  "pathProps =
     [''gatekeeper_datapath'', ''traefik_datapath'', ''proxy_datapath'',
      ''bitcoin_datapath'', ''lightning_datapath'', ''otsclient_datapath'']"

text \<open>Lines 337-341.\<close>

fun resolveCustomPaths :: "string list \<Rightarrow> doc \<Rightarrow> doc" where
  "resolveCustomPaths [] d = d"
| "resolveCustomPaths (pathProp # rest) d =
     resolveCustomPaths rest
       (if js_prop d pathProp = JStr ''_custom''
        then d(pathProp \<mapsto>
               (if truthy (js_prop d (pathProp @ ''_custom''))
                then js_prop d (pathProp @ ''_custom'') else JStr []))
        else d)"

text \<open>Lines 345-358: the templates of one prompter. A rejected rendering propagates.\<close>

fun writeTemplates :: "externals \<Rightarrow> string \<Rightarrow> string list \<Rightarrow> app \<Rightarrow> status \<times> app" where
  "writeTemplates X name [] s = (Running, s)"
| "writeTemplates X name (t # ts) s =
     (let p = path_join X [name, t];
          destFile = destinationPath X p;
          targetDir = path_dirname X destFile;
          s1 = (if \<not> existsSync (fs s) targetDir then mkdirSync targetDir s else s)
      in case renderFile X (templatePath X p) (config_data s1 ++ sessionData s1) of
           None \<Rightarrow> (Thrown ''render'', s1)
         | Some result \<Rightarrow>
             writeTemplates X name ts
               (writeFileSync destFile result (console_log (''   create '' @ p) s1)))"

text \<open>Lines 343-359.\<close>

fun writeAllTemplates :: "externals \<Rightarrow> prompter list \<Rightarrow> app \<Rightarrow> status \<times> app" where
  "writeAllTemplates X [] s = (Running, s)"
| "writeAllTemplates X (m # ms) s =
     and_then (writeTemplates X (pname m) (ptemplates m (config_data s)) s)
       (writeAllTemplates X ms)"

text \<open>One \<open>archive.writeEntry\<close> with its report (lines 371-376).\<close>

definition writeArchiveEntry :: "externals \<Rightarrow> string \<Rightarrow> jsval \<Rightarrow> app \<Rightarrow> app" where
  "writeArchiveEntry X entry content s =
     (let p = destinationPath X keyArchiveFileName;
          pw = js_prop (config_data s) ''gatekeeper_clientkeyspassword'';
          r = writeEntry X p pw entry content (fs s);
          s1 = log_event (ArchiveWriteEntry p pw entry content) (s\<lparr>fs := snd r\<rparr>)
      in if \<not> fst r
         then console_log ''error! Client gatekeeper key archive was not written'' s1
         else s1)"

text \<open>The condition of line 363.\<close>

definition hasClientInformation :: "doc \<Rightarrow> bool" where
  "hasClientInformation d =
     (truthy (js_prop d ''gatekeeper_keys'')
      \<and> (case js_get (js_prop d ''gatekeeper_keys'') ''clientInformation'' of
            None \<Rightarrow> False
          | Some ci \<Rightarrow> truthy ci))"

text \<open>The condition of lines 365-366.\<close>

definition keyArchiveStale :: "externals \<Rightarrow> app \<Rightarrow> bool" where
  "keyArchiveStale X s =
     (strict_neq (js_prop (sessionData s) ''gatekeeper_clientkeyspassword'')
                 (js_prop (config_data s) ''gatekeeper_clientkeyspassword'')
      \<and> existsSync (fs s) (destinationPath X keyArchiveFileName))"

text \<open>
  Lines 361-377. \<open>clientInformation.join\<close> is a TypeError on anything that is not an
  array; it is evaluated after the stale archive has been removed.
\<close>

definition writeKeyArchive :: "externals \<Rightarrow> app \<Rightarrow> status \<times> app" where
  "writeKeyArchive X s =
     (let s1 = console_log (''   create '' @ keyArchiveFileName) s
      in if hasClientInformation (config_data s1)
         then (let s2 = (if keyArchiveStale X s1
                         then unlinkSync (destinationPath X keyArchiveFileName) s1 else s1)
               in case js_get (js_prop (config_data s2) ''gatekeeper_keys'') ''clientInformation'' of
                    Some (JArr infos) \<Rightarrow>
                      (Running,
                       writeArchiveEntry X ''cacert.pem''
                         (js_prop (config_data s2) ''gatekeeper_sslcert'')
                         (writeArchiveEntry X ''keys.txt'' (JStr (js_join infos [CHR 0x0A])) s2))
                  | _ \<Rightarrow> (Thrown ''TypeError'', s2))
         else (Running, s1))"

text \<open>Line 379.\<close>

definition writeExitStatus :: "externals \<Rightarrow> app \<Rightarrow> status \<times> app" where
  "writeExitStatus X s = (Running, writeFileSync (exitStatusPath X) ''EXIT_STATUS=0'' s)"

definition writeFiles :: "externals \<Rightarrow> app \<Rightarrow> status \<times> app" where
  "writeFiles X s =
     (let s1 = writeConfigArchive X s;
          s2 = s1\<lparr>config_data := resolveCustomPaths pathProps (config_data s1)\<rparr>
      in and_then (and_then (writeAllTemplates X (prompters X) s2) (writeKeyArchive X))
           (writeExitStatus X))"

section \<open>The constructor and \<open>start\<close>\<close>

text \<open>
  \<open>new App()\<close> on a filesystem and the operator's answers: the features are loaded and
  a sentinel left by an earlier run is removed. (The splash screen object is not
  modelled.)
\<close>

definition App_new :: "externals \<Rightarrow> filesystem \<Rightarrow> (string \<rightharpoonup> jsval) list \<Rightarrow> app" where
  "App_new X f ins =
     (let s = \<lparr>config_data = Map.empty, config_validateErrors = None,
               sessionData = Map.empty, features = features_json X, help_data = None,
               fs = f, inputs = ins, trace = [], rng_pos = 0\<rparr>
      in if existsSync f (exitStatusPath X) then unlinkSync (exitStatusPath X) s else s)"

text \<open>Lines 119-127.\<close>

fun missingProperties :: "validate_error list \<Rightarrow> jsval list" where
  "missingProperties [] = []"
| "missingProperties (e # es) =
     (if keyword e = JStr ''required'' \<and> truthy (params e)
         \<and> (case js_get (params e) ''missingProperty'' of None \<Rightarrow> False | Some m \<Rightarrow> truthy m)
      then (case js_get (params e) ''missingProperty'' of None \<Rightarrow> [] | Some m \<Rightarrow> [m])
      else [])
     @ missingProperties es"

definition missingOf :: "app \<Rightarrow> jsval list" where
  "missingOf s = (case config_validateErrors s of None \<Rightarrow> [] | Some es \<Rightarrow> missingProperties es)"

definition noWizard :: "app \<Rightarrow> bool" where
  "noWizard s = truthy (js_prop (sessionData s) ''noWizard'')"

text \<open>Lines 129-132.\<close>

definition unattendedFail :: "app \<Rightarrow> status \<times> app" where
  "unattendedFail s =
     (process_exit (Some 1),
      console_log ''Unable to migrate client.7z non-interactively. Rerun without the -r option'' s)"

text \<open>Lines 134-141.\<close>

definition wizardStep :: "externals \<Rightarrow> app \<Rightarrow> status \<times> app" where
  "wizardStep X s =
     (if \<not> noWizard s
      then (let s1 = s\<lparr>sessionData :=
                        (sessionData s)(''gatekeeper_clientkeyspassword'' \<mapsto>
                           js_prop (config_data s) ''gatekeeper_clientkeyspassword'')\<rparr>;
                s2 = (if missingOf s1 \<noteq> []
                      then s1\<lparr>sessionData :=
                                (sessionData s1)(''markProperties'' \<mapsto> JArr (missingOf s1))\<rparr>
                      else s1)
            in startWizard X s2)
      else (Running, s))"

text \<open>Lines 115-144: what follows \<open>setupConfigArchive\<close>.\<close>

definition afterSetup :: "externals \<Rightarrow> app \<Rightarrow> status \<times> app" where
  "afterSetup X s =
     (let s1 = (if \<not> truthy (js_prop (sessionData s) ''noSplashScreen'')
                then log_event SplashShow s else s)
      in if noWizard s1 \<and> missingOf s1 \<noteq> [] then unattendedFail s1
         else and_then (and_then (wizardStep X s1) (processProps X)) (writeFiles X))"

text \<open>Lines 76-111: \<open>options || {}\<close> and the session data of the run.\<close>

definition initSession :: "externals \<Rightarrow> doc option \<Rightarrow> jsval \<Rightarrow> app \<Rightarrow> app" where
  "initSession X options dir s =
     s\<lparr>sessionData :=
         versionOverride X
           (sessionData_init X (case options of None \<Rightarrow> Map.empty | Some opts \<Rightarrow> opts) dir)\<rparr>"

text \<open>\<open>start(options)\<close>.\<close>

definition start :: "externals \<Rightarrow> doc option \<Rightarrow> app \<Rightarrow> status \<times> app" where
  "start X options s =
     (case setupDir_init X of
        None \<Rightarrow> (Thrown ''TypeError'', s)
      | Some dir \<Rightarrow> and_then (setupConfigArchive X (initSession X options dir s)) (afterSetup X))"

text \<open>A run: \<open>new App().start(options)\<close> on a filesystem and the operator's answers.\<close>

definition run ::
  "externals \<Rightarrow> doc option \<Rightarrow> filesystem \<Rightarrow> (string \<rightharpoonup> jsval) list \<Rightarrow> status \<times> app" where
  "run X options f ins = start X options (App_new X f ins)"

section \<open>Observations on a run\<close>

text \<open>The events that touch the filesystem.\<close>

fun isFsEvent :: "event \<Rightarrow> bool" where
  "isFsEvent (ConsoleLog m) = False"
| "isFsEvent (StdoutWrite m) = False"
| "isFsEvent SplashShow = False"
| "isFsEvent (FsUnlink p) = True"
| "isFsEvent (FsMkdir p) = True"
| "isFsEvent (FsWriteFile p c) = True"
| "isFsEvent (ConfigSerialize p pw) = True"
| "isFsEvent (ArchiveWriteEntry p pw e c) = True"

text \<open>
  A step is quiet when it leaves the filesystem alone, adds no filesystem event and
  keeps the run mode of the session data.
\<close>

definition quiet :: "app \<Rightarrow> app \<Rightarrow> bool" where
  "quiet s s' =
     (fs s' = fs s
      \<and> filter isFsEvent (trace s') = filter isFsEvent (trace s)
      \<and> sessionData s' ''noWizard'' = sessionData s ''noWizard'')"

text \<open>The properties of the session data that are assigned after \<open>start\<close> has set it up.\<close>

definition sessionWritten :: "string list" where
  "sessionWritten =
     [''configurationPassword'', ''gatekeeper_clientkeyspassword_c'',
      ''gatekeeper_clientkeyspassword'', ''markProperties'', ''cns'']"

text \<open>
  The second disjunct of the condition of lines 262-263 where it is evaluated and true:
  \<open>gatekeeper_keys.configEntries.length === 0\<close>.
\<close>

definition keyEntriesEmpty :: "doc \<Rightarrow> bool" where
  "keyEntriesEmpty d =
     (case js_get (js_prop d ''gatekeeper_keys'') ''configEntries'' of
        None \<Rightarrow> False
      | Some entries \<Rightarrow> js_get entries ''length'' = Some (JNum 0))"

text \<open>
  A certificate generation that fails: \<open>cert.create\<close> throws, or what it returns has
  no completion code 0 (reading the code of \<open>undefined\<close> or \<open>null\<close> throws as well).
\<close>

definition certAttemptFails :: "externals \<Rightarrow> jsval \<Rightarrow> bool" where
  "certAttemptFails X cns =
     (case cert_create X cns of
        None \<Rightarrow> True
      | Some result \<Rightarrow> js_get result ''code'' \<noteq> Some (JNum 0))"

text \<open>
  What the operator entered for a question, with surrounding white space removed
  (nothing entered counts as the empty string), and the pairs of entries the
  new-password flow is to accept: both non-empty and equal once trimmed.
\<close>

definition enteredTrimmed :: "(string \<rightharpoonup> jsval) \<Rightarrow> string \<Rightarrow> string" where
  "enteredTrimmed entered name =
     js_trim (js_toString (case entered name of None \<Rightarrow> JStr [] | Some v \<Rightarrow> v))"

definition pairAccepted :: "(string \<rightharpoonup> jsval) \<Rightarrow> bool" where
  "pairAccepted entered =
     (enteredTrimmed entered ''password0'' \<noteq> []
      \<and> enteredTrimmed entered ''password1'' \<noteq> []
      \<and> enteredTrimmed entered ''password0'' = enteredTrimmed entered ''password1'')"

definition pairRejected :: "(string \<rightharpoonup> jsval) \<Rightarrow> bool" where
  "pairRejected entered = (\<not> pairAccepted entered)"

text \<open>
  When \<open>writeFiles\<close> runs to its end: every template of every prompter renders, and
  \<open>clientInformation\<close>, when the key archive is to be written, is an array (so that
  \<open>join\<close> exists). Neither depends on how the archive writes end.
\<close>

definition templatesRender :: "externals \<Rightarrow> doc \<Rightarrow> doc \<Rightarrow> bool" where
  "templatesRender X d sd =
     list_all
       (\<lambda>m. list_all
              (\<lambda>t. renderFile X (templatePath X (path_join X [pname m, t])) (d ++ sd) \<noteq> None)
              (ptemplates m d))
       (prompters X)"

definition clientInformationJoins :: "doc \<Rightarrow> bool" where
  "clientInformationJoins d =
     (case js_get (js_prop d ''gatekeeper_keys'') ''clientInformation'' of
        Some (JArr infos) \<Rightarrow> True
      | _ \<Rightarrow> \<not> hasClientInformation d)"

definition writeFilesCompletes :: "externals \<Rightarrow> app \<Rightarrow> bool" where
  "writeFilesCompletes X s =
     (templatesRender X (resolveCustomPaths pathProps (config_data s)) (sessionData s)
      \<and> clientInformationJoins (resolveCustomPaths pathProps (config_data s)))"

section \<open>A sample installation\<close>

text \<open>
  Concrete collaborators, a stored document and a filesystem on which the theorems
  below are instantiated. The stored document misses one required property.
\<close>

definition sample_doc :: doc where
  "sample_doc =
     [''gatekeeper_clientkeyspassword'' \<mapsto> JStr ''clientpw'',
      ''gatekeeper_keys'' \<mapsto>
         JObj [(''configEntries'', JArr [JStr ''entry0'']),
               (''clientInformation'', JArr [JStr ''info0''])],
      ''gatekeeper_sslkey'' \<mapsto> JStr ''KEY'',
      ''gatekeeper_sslcert'' \<mapsto> JStr ''CERT'']"

definition sample_errors :: "validate_error list" where
  "sample_errors =
     [\<lparr>keyword = JStr ''required'',
       params = JObj [(''missingProperty'', JStr ''proxy_datapath'')]\<rparr>]"

definition sampleX :: externals where
  "sampleX =
     \<lparr>env = [''HOME'' \<mapsto> ''/root'', ''CFG_PASSWORD'' \<mapsto> ''secret''],
      dirname = ''/app/lib'',
      path_join = join_with ''/'',
      path_dirname = (\<lambda>p. ''/data''),
      name_generate = ''node'',
      randomColor = ''aabbcc'',
      ansi_clear = ''c'',
      ansi_reset = ''r'',
      features_json = [],
      help_json = Map.empty,
      prompters = [],
      Config_data = Map.empty,
      Config_validateErrors = None,
      deserialize = (\<lambda>p pw f. if pw = JStr ''secret'' then Inr (sample_doc, Some sample_errors)
                             else Inl (JStr ''Wrong password'')),
      serialize = (\<lambda>p pw d f. (False, f)),
      htpasswd = (\<lambda>pw. JStr ''hash''),
      randomBytes = (\<lambda>i. replicate (Suc i) CHR ''k''),
      getConfigEntry = (\<lambda>k. JStr (ak_id k)),
      getClientInformation =
        (\<lambda>k. JStr (case ak_key k of None \<Rightarrow> [] | Some secret \<Rightarrow> secret)),
      cert_cns = (\<lambda>v. v),
      cert_create = (\<lambda>cns. None),
      renderFile = (\<lambda>p d. Some ''text''),
      writeEntry = (\<lambda>p pw e c f. (False, f))\<rparr>"

definition sample_fs :: filesystem where
  "sample_fs =
     [''/data/config.7z'' \<mapsto> File ''config archive'',
      ''/data/client.7z'' \<mapsto> File ''client archive'',
      ''/data/exitStatus.sh'' \<mapsto> File ''EXIT_STATUS=0'']"

definition unattended :: doc where
  "unattended = [''noWizard'' \<mapsto> JBool True]"

text \<open>The application after the sample document has been loaded.\<close>

definition sample_app :: app where
  "sample_app =
     \<lparr>config_data = sample_doc, config_validateErrors = None,
      sessionData = [''configurationPassword'' \<mapsto> JStr ''secret'',
                     ''gatekeeper_clientkeyspassword'' \<mapsto> JStr ''clientpw''],
      features = [], help_data = None, fs = sample_fs, inputs = [], trace = [], rng_pos = 0\<rparr>"

text \<open>
  The same installation with a stored document that misses nothing and one prompter,
  which asks for the credential of the client key archive.
\<close>

definition sample_gatekeeper :: prompter where
  "sample_gatekeeper =
     \<lparr>pname = ''gatekeeper'',
      pprompts = (\<lambda>objects. [\<lparr>qname = ''gatekeeper_clientkeyspassword'', qtype = ''password'',
                               qmessage = ''Password for the client keys?'',
                               qdefault = JUndef, qfilter = None\<rparr>]),
      ptemplates = (\<lambda>d. [])\<rparr>"

definition sampleX_complete :: externals where
  "sampleX_complete =
     sampleX\<lparr>deserialize := (\<lambda>p pw f. Inr (sample_doc, None)),
             prompters := [sample_gatekeeper]\<rparr>"

section \<open>The key hierarchy\<close>

lemma createKeys_keyIds:
  "createKeys X keyIds [] s =
     Some ([\<lparr>ak_id = ''000'', ak_groups = [''stats''], ak_key = Some (randomBytes X (rng_pos s))\<rparr>,
            \<lparr>ak_id = ''001'', ak_groups = [''stats'', ''watcher''],
              ak_key = Some (randomBytes X (rng_pos s + 1))\<rparr>,
            \<lparr>ak_id = ''002'', ak_groups = [''stats'', ''watcher'', ''spender''],
              ak_key = Some (randomBytes X (rng_pos s + 2))\<rparr>,
            \<lparr>ak_id = ''003'', ak_groups = [''stats'', ''watcher'', ''spender'', ''admin''],
              ak_key = Some (randomBytes X (rng_pos s + 3))\<rparr>],
           s\<lparr>rng_pos := rng_pos s + 4\<rparr>)"
  by (simp add: keyIds_def createRandomKey_def randomiseKey_def setId_def setGroups_def
        ApiKey_new_def eval_nat_numeral)

lemma psubset_snoc: "x \<notin> set xs \<Longrightarrow> set xs \<subset> set (xs @ [x])"
  by auto

lemma processKeys_cases:
  "(keysDue (config_data s) = None \<and> processKeys X s = (Thrown ''TypeError'', s))
   \<or> (keysDue (config_data s) = Some False \<and> processKeys X s = (Running, s))
   \<or> (keysDue (config_data s) = Some True \<and> processKeys X s = regenerateKeys X s)"
  by (cases "keysDue (config_data s)") (auto simp: processKeys_def)

text \<open>What regenerating the keys stores, with the four key records it is made from.\<close>

lemma regenerateKeys_batch:
  "\<exists>ks. regenerateKeys X s =
          (Running,
           s\<lparr>config_data :=
                (config_data s)
                  (''gatekeeper_recreatekeys'' := None,
                   ''gatekeeper_keys'' \<mapsto>
                      JObj [(''configEntries'', JArr (map (getConfigEntry X) ks)),
                            (''clientInformation'', JArr (map (getClientInformation X) ks))]),
              rng_pos := rng_pos s + 4\<rparr>)
      \<and> map ak_id ks = [''000'', ''001'', ''002'', ''003'']
      \<and> map ak_groups ks =
          [[''stats''], [''stats'', ''watcher''], [''stats'', ''watcher'', ''spender''],
           [''stats'', ''watcher'', ''spender'', ''admin'']]
      \<and> map ak_key ks =
          [Some (randomBytes X (rng_pos s)), Some (randomBytes X (rng_pos s + 1)),
           Some (randomBytes X (rng_pos s + 2)), Some (randomBytes X (rng_pos s + 3))]"
proof -
  let ?s1 = "s\<lparr>config_data := (config_data s)(''gatekeeper_recreatekeys'' := None)\<rparr>"
  define ks where "ks =
     [\<lparr>ak_id = ''000'', ak_groups = [''stats''], ak_key = Some (randomBytes X (rng_pos s))\<rparr>,
      \<lparr>ak_id = ''001'', ak_groups = [''stats'', ''watcher''],
        ak_key = Some (randomBytes X (rng_pos s + 1))\<rparr>,
      \<lparr>ak_id = ''002'', ak_groups = [''stats'', ''watcher'', ''spender''],
        ak_key = Some (randomBytes X (rng_pos s + 2))\<rparr>,
      \<lparr>ak_id = ''003'', ak_groups = [''stats'', ''watcher'', ''spender'', ''admin''],
        ak_key = Some (randomBytes X (rng_pos s + 3))\<rparr>]"
  have made: "createKeys X keyIds [] ?s1 = Some (ks, ?s1\<lparr>rng_pos := rng_pos s + 4\<rparr>)"
    unfolding createKeys_keyIds [of X ?s1] ks_def by simp
  have regen: "regenerateKeys X s =
          (Running,
           s\<lparr>config_data :=
                (config_data s)
                  (''gatekeeper_recreatekeys'' := None,
                   ''gatekeeper_keys'' \<mapsto>
                      JObj [(''configEntries'', JArr (map (getConfigEntry X) ks)),
                            (''clientInformation'', JArr (map (getClientInformation X) ks))]),
              rng_pos := rng_pos s + 4\<rparr>)"
    unfolding regenerateKeys_def Let_def made by (simp add: keysObject_def)
  have ids: "map ak_id ks = [''000'', ''001'', ''002'', ''003'']"
    by (simp add: ks_def)
  have groups: "map ak_groups ks =
          [[''stats''], [''stats'', ''watcher''], [''stats'', ''watcher'', ''spender''],
           [''stats'', ''watcher'', ''spender'', ''admin'']]"
    by (simp add: ks_def)
  have secrets: "map ak_key ks =
          [Some (randomBytes X (rng_pos s)), Some (randomBytes X (rng_pos s + 1)),
           Some (randomBytes X (rng_pos s + 2)), Some (randomBytes X (rng_pos s + 3))]"
    by (simp add: ks_def)
  show ?thesis
    apply (rule exI [where x = ks])
    apply (intro conjI)
       apply (rule regen)
      apply (rule ids)
     apply (rule groups)
    apply (rule secrets)
    done
qed

lemma groups_chain:
  assumes "map ak_groups ks =
          [[''stats''], [''stats'', ''watcher''], [''stats'', ''watcher'', ''spender''],
           [''stats'', ''watcher'', ''spender'', ''admin'']]"
  shows "set (ak_groups (ks ! 0)) \<subset> set (ak_groups (ks ! 1))
       \<and> set (ak_groups (ks ! 1)) \<subset> set (ak_groups (ks ! 2))
       \<and> set (ak_groups (ks ! 2)) \<subset> set (ak_groups (ks ! 3))"
proof -
  have len: "length ks = 4"
    using arg_cong [OF assms, of length] by simp
  have nth: "ak_groups (ks ! i) = map ak_groups ks ! i" if "i < 4" for i
    using that len by simp
  have g0: "ak_groups (ks ! 0) = [''stats'']"
    and g1: "ak_groups (ks ! 1) = [''stats'', ''watcher'']"
    and g2: "ak_groups (ks ! 2) = [''stats'', ''watcher'', ''spender'']"
    and g3: "ak_groups (ks ! 3) = [''stats'', ''watcher'', ''spender'', ''admin'']"
    unfolding assms by (simp_all add: nth [unfolded assms] eval_nat_numeral)
  have n1: "''watcher'' \<notin> set [''stats'']"
    and n2: "''spender'' \<notin> set [''stats'', ''watcher'']"
    and n3: "''admin'' \<notin> set [''stats'', ''watcher'', ''spender'']"
    by simp_all
  have s01: "set (ak_groups (ks ! 0)) \<subset> set (ak_groups (ks ! 1))"
    using psubset_snoc [OF n1] unfolding g0 g1 by (simp only: append_Cons append_Nil)
  have s12: "set (ak_groups (ks ! 1)) \<subset> set (ak_groups (ks ! 2))"
    using psubset_snoc [OF n2] unfolding g1 g2 by (simp only: append_Cons append_Nil)
  have s23: "set (ak_groups (ks ! 2)) \<subset> set (ak_groups (ks ! 3))"
    using psubset_snoc [OF n3] unfolding g2 g3 by (simp only: append_Cons append_Nil)
  from s01 s12 s23 show ?thesis by (intro conjI)
qed

text \<open>
  C1. Regenerating the keys always succeeds. It removes the recreate-keys flag and
  stores as \<open>gatekeeper_keys\<close> the object whose \<open>configEntries\<close> and
  \<open>clientInformation\<close> are the two projections of a batch of four key records: their
  identifiers are exactly 000, 001, 002 and 003, in this order; the groups of each
  record are a strict superset of the groups of the record before it; and the secret of
  each record is a new draw from the entropy source, the four draws that follow the
  secrets drawn so far. The keys step of \<open>processProps\<close> either regenerates the keys in
  this way or leaves the application as it is.
\<close>

theorem key_batch_hierarchy:
  "\<exists>ks s'. regenerateKeys X s = (Running, s')
     \<and> config_data s' =
         (config_data s)
           (''gatekeeper_recreatekeys'' := None,
            ''gatekeeper_keys'' \<mapsto>
               JObj [(''configEntries'', JArr (map (getConfigEntry X) ks)),
                     (''clientInformation'', JArr (map (getClientInformation X) ks))])
     \<and> map ak_id ks = [''000'', ''001'', ''002'', ''003'']
     \<and> map ak_groups ks =
         [[''stats''], [''stats'', ''watcher''], [''stats'', ''watcher'', ''spender''],
          [''stats'', ''watcher'', ''spender'', ''admin'']]
     \<and> set (ak_groups (ks ! 0)) \<subset> set (ak_groups (ks ! 1))
     \<and> set (ak_groups (ks ! 1)) \<subset> set (ak_groups (ks ! 2))
     \<and> set (ak_groups (ks ! 2)) \<subset> set (ak_groups (ks ! 3))
     \<and> map ak_key ks =
         [Some (randomBytes X (rng_pos s)), Some (randomBytes X (rng_pos s + 1)),
          Some (randomBytes X (rng_pos s + 2)), Some (randomBytes X (rng_pos s + 3))]
     \<and> rng_pos s' = rng_pos s + 4
     \<and> (processKeys X s = regenerateKeys X s \<or> snd (processKeys X s) = s)"
proof -
  let ?d = "\<lambda>ks. (config_data s)
           (''gatekeeper_recreatekeys'' := None,
            ''gatekeeper_keys'' \<mapsto>
               JObj [(''configEntries'', JArr (map (getConfigEntry X) ks)),
                     (''clientInformation'', JArr (map (getClientInformation X) ks))])"
  from regenerateKeys_batch [of X s]
  obtain ks where batch: "regenerateKeys X s
        = (Running, s\<lparr>config_data := ?d ks, rng_pos := rng_pos s + 4\<rparr>)
      \<and> map ak_id ks = [''000'', ''001'', ''002'', ''003'']
      \<and> map ak_groups ks =
          [[''stats''], [''stats'', ''watcher''], [''stats'', ''watcher'', ''spender''],
           [''stats'', ''watcher'', ''spender'', ''admin'']]
      \<and> map ak_key ks =
          [Some (randomBytes X (rng_pos s)), Some (randomBytes X (rng_pos s + 1)),
           Some (randomBytes X (rng_pos s + 2)), Some (randomBytes X (rng_pos s + 3))]" ..
  note regen = batch [THEN conjunct1]
    and ids = batch [THEN conjunct2, THEN conjunct1]
    and groups = batch [THEN conjunct2, THEN conjunct2, THEN conjunct1]
    and secrets = batch [THEN conjunct2, THEN conjunct2, THEN conjunct2]
  let ?s' = "s\<lparr>config_data := ?d ks, rng_pos := rng_pos s + 4\<rparr>"
  have doc: "config_data ?s' = ?d ks" and pos: "rng_pos ?s' = rng_pos s + 4"
    by simp_all
  note chain = groups_chain [OF groups]
  have only: "processKeys X s = regenerateKeys X s \<or> snd (processKeys X s) = s"
    using processKeys_cases [of s X] by auto
  show ?thesis
    apply (rule exI [where x = ks])
    apply (rule exI [where x = ?s'])
    apply (intro conjI)
             apply (rule regen)
            apply (rule doc)
           apply (rule ids)
          apply (rule groups)
         apply (rule chain [THEN conjunct1])
        apply (rule chain [THEN conjunct2, THEN conjunct1])
       apply (rule chain [THEN conjunct2, THEN conjunct2])
      apply (rule secrets)
     apply (rule pos)
    apply (rule only)
    done
qed

section \<open>Steps that write nothing\<close>

lemma quiet_refl: "quiet s s"
  by (simp add: quiet_def)

lemma quiet_trans: "quiet a b \<Longrightarrow> quiet b c \<Longrightarrow> quiet a c"
  by (simp add: quiet_def)

lemma quiet_console_log: "quiet s (console_log m s)"
  by (simp add: quiet_def console_log_def log_event_def)

lemma quiet_prompt: "quiet s (snd (prompt qs s))"
  by (simp add: quiet_def prompt_def split: option.splits list.splits)

lemma quiet_mismatchNotice: "quiet s (mismatchNotice r s)"
  by (simp add: mismatchNotice_def quiet_console_log quiet_refl)

lemma quiet_newPasswordLoop: "quiet s (snd (snd (newPasswordLoop r s)))"
proof (induction r s rule: newPasswordLoop.induct)
  case (1 r s)
  show ?case
  proof (cases "passwordPairRejected r")
    case False
    then show ?thesis by (simp add: newPasswordLoop.simps [of r s] quiet_refl)
  next
    case True
    obtain a s' where p: "prompt (Some newPasswordQuestions) (mismatchNotice r s) = (a, s')"
      by (cases "prompt (Some newPasswordQuestions) (mismatchNotice r s)")
    have q1: "quiet s s'"
      using quiet_trans [OF quiet_mismatchNotice [of s r]
          quiet_prompt [of "mismatchNotice r s" "Some newPasswordQuestions"]] p
      by simp
    show ?thesis
    proof (cases a)
      case None
      with True p q1 show ?thesis by (simp add: newPasswordLoop.simps [of r s])
    next
      case (Some r')
      have "quiet s' (snd (snd (newPasswordLoop r' s')))"
        using "1.IH" [OF True p [symmetric, unfolded Some] refl] .
      with q1 have "quiet s (snd (snd (newPasswordLoop r' s')))"
        by (rule quiet_trans)
      with True p Some show ?thesis by (simp add: newPasswordLoop.simps [of r s])
    qed
  qed
qed

lemma quiet_passwordLoop: "quiet s (snd (snd (passwordLoop r s)))"
proof (induction r s rule: passwordLoop.induct)
  case (1 r s)
  show ?case
  proof (cases "truthy (js_prop r ''password'')")
    case True
    then show ?thesis by (simp add: passwordLoop.simps [of r s] quiet_refl)
  next
    case False
    obtain a s' where p: "prompt (Some passwordQuestions) s = (a, s')"
      by (cases "prompt (Some passwordQuestions) s")
    have q1: "quiet s s'"
      using quiet_prompt [of s "Some passwordQuestions"] p by simp
    show ?thesis
    proof (cases a)
      case None
      with False p q1 show ?thesis by (simp add: passwordLoop.simps [of r s])
    next
      case (Some r')
      have "quiet s' (snd (snd (passwordLoop r' s')))"
        using "1.IH" [OF False p [symmetric, unfolded Some] refl] .
      with q1 have "quiet s (snd (snd (passwordLoop r' s')))"
        by (rule quiet_trans)
      with False p Some show ?thesis by (simp add: passwordLoop.simps [of r s])
    qed
  qed
qed

lemma quiet_log_quiet: "\<not> isFsEvent e \<Longrightarrow> quiet s (log_event e s)"
  by (simp add: quiet_def log_event_def)

lemma quiet_createWithNewPassword: "quiet s (snd (createWithNewPassword X s))"
proof -
  let ?s0 = "log_event (StdoutWrite (ansi_clear X @ ansi_reset X)) s"
  have a: "quiet s ?s0" by (rule quiet_log_quiet) simp
  have b: "quiet ?s0 (snd (snd (newPasswordLoop Map.empty ?s0)))"
    by (rule quiet_newPasswordLoop)
  have c: "quiet (snd (snd (newPasswordLoop Map.empty ?s0))) (snd (createWithNewPassword X s))"
    by (simp add: createWithNewPassword_def quiet_def split: prod.splits)
  from a b c show ?thesis by (blast intro: quiet_trans)
qed

lemma quiet_resolvePassword: "quiet s (snd (resolvePassword X s))"
proof (cases "truthy (env_val X ''CFG_PASSWORD'')")
  case True
  then show ?thesis by (simp add: resolvePassword_def quiet_def)
next
  case False
  let ?s0 = "log_event (StdoutWrite (ansi_reset X)) s"
  have a: "quiet s ?s0" by (rule quiet_log_quiet) simp
  have b: "quiet ?s0 (snd (snd (passwordLoop Map.empty ?s0)))"
    by (rule quiet_passwordLoop)
  have c: "quiet (snd (snd (passwordLoop Map.empty ?s0))) (snd (resolvePassword X s))"
    using False by (simp add: resolvePassword_def quiet_def split: prod.splits)
  from a b c show ?thesis by (blast intro: quiet_trans)
qed

lemma quiet_loadArchive: "quiet s (snd (loadArchive X s))"
  by (simp add: loadArchive_def quiet_def console_log_def log_event_def Let_def
      split: sum.splits prod.splits)

lemma quiet_finishSetup: "quiet s (snd (finishSetup X s))"
  by (simp add: finishSetup_def quiet_def Let_def split: option.splits)

lemma quiet_and_then:
  "quiet s (snd r) \<Longrightarrow> (\<And>t. quiet t (snd (f t))) \<Longrightarrow> quiet s (snd (and_then r f))"
  by (auto simp: and_then_def intro: quiet_trans)

lemma quiet_setupConfigArchive: "quiet s (snd (setupConfigArchive X s))"
proof -
  let ?s0 = "s\<lparr>config_data := Config_data X, config_validateErrors := Config_validateErrors X\<rparr>"
  have a: "quiet s ?s0" by (simp add: quiet_def)
  have b: "quiet ?s0 (snd (setupConfigArchive X s))"
    unfolding setupConfigArchive_def Let_def
    by (auto intro!: quiet_and_then quiet_createWithNewPassword quiet_resolvePassword
          quiet_loadArchive quiet_finishSetup)
  from a b show ?thesis by (rule quiet_trans)
qed

section \<open>An unattended run with missing required properties\<close>

lemma versionOverride_other:
  "k \<notin> set versionPins \<Longrightarrow> versionOverride X sd k = sd k"
  by (simp add: versionOverride_def versionPins_def)

lemma initSession_noWizard:
  "sessionData (initSession X (Some opts) dir s) ''noWizard''
     = Some (JBool (truthy (js_prop opts ''noWizard'')))"
  by (simp add: initSession_def versionOverride_other versionPins_def sessionData_init_def)

lemma App_new_sentinel: "fs (App_new X f ins) (exitStatusPath X) = None"
  by (auto simp: App_new_def Let_def unlinkSync_def log_event_def existsSync_def)

text \<open>
  C3. In a run started with the \<open>noWizard\<close> option, when \<open>setupConfigArchive\<close> has
  returned and the validation errors of the document name at least one missing
  required property, the process exits with status 1; the last thing it prints is the
  instruction to rerun interactively; the filesystem is the one the constructor left,
  no filesystem event has been added to the constructor's, and there is no sentinel
  file.
\<close>

theorem unattended_missing_exit:
  assumes unatt: "truthy (js_prop opts ''noWizard'')"
    and dir: "setupDir_init X = Some dir"
    and setup_ok: "fst (setupConfigArchive X (initSession X (Some opts) dir (App_new X f ins))) = Running"
    and missing:
      "missingOf (snd (setupConfigArchive X (initSession X (Some opts) dir (App_new X f ins)))) \<noteq> []"
  shows "fst (run X (Some opts) f ins) = Exited 1
       \<and> last (trace (snd (run X (Some opts) f ins)))
           = ConsoleLog ''Unable to migrate client.7z non-interactively. Rerun without the -r option''
       \<and> fs (snd (run X (Some opts) f ins)) = fs (App_new X f ins)
       \<and> filter isFsEvent (trace (snd (run X (Some opts) f ins)))
           = filter isFsEvent (trace (App_new X f ins))
       \<and> fs (snd (run X (Some opts) f ins)) (exitStatusPath X) = None"
proof -
  let ?s0 = "App_new X f ins"
  let ?s1 = "initSession X (Some opts) dir ?s0"
  let ?s2 = "snd (setupConfigArchive X ?s1)"
  let ?s3 = "if \<not> truthy (js_prop (sessionData ?s2) ''noSplashScreen'')
             then log_event SplashShow ?s2 else ?s2"
  have same: "fs ?s1 = fs ?s0" "trace ?s1 = trace ?s0"
    by (simp_all add: initSession_def)
  have "sessionData ?s1 ''noWizard'' = Some (JBool True)"
    using initSession_noWizard [of X opts dir ?s0] unatt by simp
  moreover have q12: "quiet ?s1 ?s2" by (rule quiet_setupConfigArchive)
  ultimately have nw2: "sessionData ?s2 ''noWizard'' = Some (JBool True)"
    by (simp add: quiet_def)
  have q23: "quiet ?s2 ?s3" by (simp add: quiet_refl quiet_log_quiet)
  have q13: "quiet ?s1 ?s3" using q12 q23 by (rule quiet_trans)
  have nw3: "noWizard ?s3" using nw2 by (simp add: noWizard_def js_prop_def log_event_def)
  have m3: "missingOf ?s3 \<noteq> []" using missing by (simp add: missingOf_def log_event_def)
  have after: "afterSetup X ?s2 = unattendedFail ?s3"
    unfolding afterSetup_def Let_def using nw3 m3 by simp
  have r: "run X (Some opts) f ins = unattendedFail ?s3"
    unfolding run_def start_def using dir setup_ok after
    by (simp add: and_then_def)
  have q3: "quiet ?s3 (snd (unattendedFail ?s3))"
    by (simp add: unattendedFail_def quiet_console_log)
  have q: "quiet ?s1 (snd (run X (Some opts) f ins))"
    unfolding r using q13 q3 by (rule quiet_trans)
  have st: "fst (run X (Some opts) f ins) = Exited 1"
    unfolding r by (simp add: unattendedFail_def process_exit_def)
  have lst: "last (trace (snd (run X (Some opts) f ins)))
           = ConsoleLog ''Unable to migrate client.7z non-interactively. Rerun without the -r option''"
    unfolding r by (simp add: unattendedFail_def console_log_def log_event_def)
  from q st lst App_new_sentinel [of X f ins] show ?thesis
    by (simp add: quiet_def same)
qed

text \<open>The definitions a run on the sample installation is evaluated with.\<close>

lemmas eval_defs =
  run_def start_def App_new_def initSession_def setupDir_init_def env_val_def env_or_def
  sessionData_init_def versionOverride_def setupConfigArchive_def resolvePassword_def
  loadArchive_def finishSetup_def and_then_def destinationPath_def exitStatusPath_def
  configArchiveFileName_def keyArchiveFileName_def existsSync_def unlinkSync_def
  log_event_def console_log_def js_prop_def missingOf_def process_exit_def Let_def

lemmas sample_defs = sampleX_def sample_fs_def sample_doc_def sample_errors_def unattended_def

theorem unattended_missing_exit_witness:
  "fst (run sampleX (Some unattended) sample_fs []) = Exited 1
   \<and> fs (snd (run sampleX (Some unattended) sample_fs [])) ''/data/exitStatus.sh'' = None
   \<and> fs (snd (run sampleX (Some unattended) sample_fs [])) ''/data/config.7z''
       = Some (File ''config archive'')"
proof -
  have a: "truthy (js_prop unattended ''noWizard'')"
    by (simp add: unattended_def js_prop_def)
  have b: "setupDir_init sampleX = Some (JStr ''/root/cyphernode'')"
    by (simp add: setupDir_init_def env_val_def sampleX_def)
  have c: "fst (setupConfigArchive sampleX (initSession sampleX (Some unattended)
             (JStr ''/root/cyphernode'') (App_new sampleX sample_fs []))) = Running"
    by (simp add: eval_defs sample_defs)
  have d: "missingOf (snd (setupConfigArchive sampleX (initSession sampleX (Some unattended)
             (JStr ''/root/cyphernode'') (App_new sampleX sample_fs [])))) \<noteq> []"
    by (simp add: eval_defs sample_defs)
  have p: "exitStatusPath sampleX = ''/data/exitStatus.sh''"
    by (simp add: exitStatusPath_def sampleX_def)
  from unattended_missing_exit [OF a b c d] show ?thesis
    by (simp add: p App_new_def Let_def existsSync_def unlinkSync_def log_event_def sample_fs_def)
qed

section \<open>An archive that cannot be decrypted\<close>

lemma loadArchive_failure:
  "deserialize X (destinationPath X configArchiveFileName)
     (js_prop (sessionData s) ''configurationPassword'') (fs s) = Inl e
   \<Longrightarrow> loadArchive X s = (Exited 0, console_log (js_toString e) s)"
  by (simp add: loadArchive_def process_exit_def)

lemma status_newPasswordLoop:
  "fst (newPasswordLoop r s) = Running \<or> fst (newPasswordLoop r s) = Waiting"
proof (induction r s rule: newPasswordLoop.induct)
  case (1 r s)
  show ?case
  proof (cases "passwordPairRejected r")
    case False
    then show ?thesis by (simp add: newPasswordLoop.simps [of r s])
  next
    case True
    obtain a s' where p: "prompt (Some newPasswordQuestions) (mismatchNotice r s) = (a, s')"
      by (cases "prompt (Some newPasswordQuestions) (mismatchNotice r s)")
    show ?thesis
    proof (cases a)
      case None
      with True p show ?thesis by (simp add: newPasswordLoop.simps [of r s])
    next
      case (Some r')
      from "1.IH" [OF True p [symmetric, unfolded Some] refl] True p Some
      show ?thesis by (simp add: newPasswordLoop.simps [of r s])
    qed
  qed
qed

lemma status_passwordLoop:
  "fst (passwordLoop r s) = Running \<or> fst (passwordLoop r s) = Waiting"
proof (induction r s rule: passwordLoop.induct)
  case (1 r s)
  show ?case
  proof (cases "truthy (js_prop r ''password'')")
    case True
    then show ?thesis by (simp add: passwordLoop.simps [of r s])
  next
    case False
    obtain a s' where p: "prompt (Some passwordQuestions) s = (a, s')"
      by (cases "prompt (Some passwordQuestions) s")
    show ?thesis
    proof (cases a)
      case None
      with False p show ?thesis by (simp add: passwordLoop.simps [of r s])
    next
      case (Some r')
      from "1.IH" [OF False p [symmetric, unfolded Some] refl] False p Some
      show ?thesis by (simp add: passwordLoop.simps [of r s])
    qed
  qed
qed

lemma setupConfigArchive_exit_status:
  "fst (setupConfigArchive X s) = Exited n \<Longrightarrow> n = 0"
proof -
  have a: "\<And>t. fst (createWithNewPassword X t) \<noteq> Exited n"
    using status_newPasswordLoop
    by (auto simp: createWithNewPassword_def split: prod.splits if_splits) (metis fst_conv status.distinct)+
  have b: "\<And>t. fst (resolvePassword X t) \<noteq> Exited n"
    using status_passwordLoop
    by (auto simp: resolvePassword_def split: prod.splits if_splits) (metis fst_conv status.distinct)+
  have c: "\<And>t. fst (finishSetup X t) \<noteq> Exited n"
    by (simp add: finishSetup_def Let_def split: option.splits)
  have d: "\<And>t. fst (loadArchive X t) = Exited n \<Longrightarrow> n = 0"
    by (auto simp: loadArchive_def process_exit_def Let_def split: sum.splits prod.splits)
  assume "fst (setupConfigArchive X s) = Exited n"
  then show ?thesis
    using a b c d
    by (auto simp: setupConfigArchive_def Let_def and_then_def split: if_splits)
qed

text \<open>
  C2. A run on an existing archive whose password is wrong: \<open>deserialize\<close> throws,
  the inner \<open>catch\<close> prints the error and calls \<open>process.exit()\<close>, and the process
  ends with exit status 0. Nothing is written (the constructor has removed the old
  sentinel), and the message is whatever \<open>deserialize\<close> threw.
\<close>

theorem decrypt_failure_exits_zero:
  "fst (run (sampleX\<lparr>env := [''HOME'' \<mapsto> ''/root'', ''CFG_PASSWORD'' \<mapsto> ''guess'']\<rparr>)
          None sample_fs []) = Exited 0
   \<and> trace (snd (run (sampleX\<lparr>env := [''HOME'' \<mapsto> ''/root'', ''CFG_PASSWORD'' \<mapsto> ''guess'']\<rparr>)
          None sample_fs []))
       = [FsUnlink ''/data/exitStatus.sh'', ConsoleLog ''Wrong password'']
   \<and> fs (snd (run (sampleX\<lparr>env := [''HOME'' \<mapsto> ''/root'', ''CFG_PASSWORD'' \<mapsto> ''guess'']\<rparr>)
          None sample_fs []))
       = sample_fs(''/data/exitStatus.sh'' := None)"
  by (simp add: eval_defs sample_defs)

section \<open>Keys and certificate: \<open>processProps\<close>\<close>

lemma regenerateKeys_result:
  "fst (regenerateKeys X s) = Running
   \<and> rng_pos (snd (regenerateKeys X s)) = rng_pos s + 4
   \<and> trace (snd (regenerateKeys X s)) = trace s
   \<and> sessionData (snd (regenerateKeys X s)) = sessionData s
   \<and> fs (snd (regenerateKeys X s)) = fs s
   \<and> (\<exists>ks. config_data (snd (regenerateKeys X s))
             = (config_data s)(''gatekeeper_recreatekeys'' := None,
                               ''gatekeeper_keys'' \<mapsto> keysObject X ks))"
  unfolding regenerateKeys_def Let_def createKeys_keyIds by simp blast

lemma processKeys_frame:
  "trace (snd (processKeys X s)) = trace s
   \<and> sessionData (snd (processKeys X s)) = sessionData s
   \<and> fs (snd (processKeys X s)) = fs s
   \<and> (k \<noteq> ''gatekeeper_recreatekeys'' \<longrightarrow> k \<noteq> ''gatekeeper_keys''
        \<longrightarrow> config_data (snd (processKeys X s)) k = config_data s k)"
  using processKeys_cases [of s X] regenerateKeys_result [of X s]
  by auto

lemma certFailed_frame:
  "config_data (certFailed s) = config_data s \<and> rng_pos (certFailed s) = rng_pos s
   \<and> trace (certFailed s) = trace s @ [ConsoleLog ''error! Gatekeeper cert was not created'']"
  by (simp add: certFailed_def console_log_def log_event_def)

lemma tryCreateCert_frame:
  "rng_pos (tryCreateCert X s) = rng_pos s
   \<and> (k \<noteq> ''gatekeeper_sslkey'' \<longrightarrow> k \<noteq> ''gatekeeper_sslcert''
        \<longrightarrow> config_data (tryCreateCert X s) k = config_data s k)"
  by (simp add: tryCreateCert_def certFailed_frame Let_def split: option.splits)

lemma beforeCertAttempt_frame:
  "rng_pos (beforeCertAttempt s) = rng_pos s
   \<and> config_data (beforeCertAttempt s) = (config_data s)(''gatekeeper_recreatecert'' := None)
   \<and> sessionData (beforeCertAttempt s) = sessionData s
   \<and> trace (beforeCertAttempt s)
       = trace s @ [ConsoleLog ''Generating gatekeeper cert. This may take a while'']"
  by (simp add: beforeCertAttempt_def console_log_def log_event_def)

lemma processCert_frame:
  "fst (processCert X s) = Running
   \<and> rng_pos (snd (processCert X s)) = rng_pos s
   \<and> config_data (snd (processCert X s)) ''gatekeeper_keys'' = config_data s ''gatekeeper_keys''"
  by (simp add: processCert_def Let_def tryCreateCert_frame beforeCertAttempt_frame)

lemma processCert_recreatekeys:
  "config_data (snd (processCert X s)) ''gatekeeper_recreatekeys''
     = config_data s ''gatekeeper_recreatekeys''"
  by (simp add: processCert_def Let_def tryCreateCert_frame beforeCertAttempt_frame)

lemma keysDue_gate:
  "keysDue d = Some True
     \<longleftrightarrow> truthy (js_prop d ''gatekeeper_recreatekeys'') \<or> keyEntriesEmpty d"
  by (auto simp: keysDue_def keyEntriesEmpty_def split: option.splits)

text \<open>
  C4. \<open>processProps\<close> regenerates the keys exactly when the recreate-keys flag is
  truthy or \<open>gatekeeper_keys.configEntries.length === 0\<close>. In that case four secrets
  are drawn, the flag is removed and \<open>gatekeeper_keys\<close> becomes the object made of the
  two projections of four new key records, with the identifiers and groups of the
  hierarchy and the four secrets just drawn. In every other case no secret is drawn
  and \<open>gatekeeper_keys\<close> is what it was.
\<close>

theorem key_regeneration_gate:
  "(truthy (js_prop (config_data s) ''gatekeeper_recreatekeys'') \<or> keyEntriesEmpty (config_data s)
      \<longrightarrow> fst (processProps X s) = Running
          \<and> rng_pos (snd (processProps X s)) = rng_pos s + 4
          \<and> config_data (snd (processProps X s)) ''gatekeeper_recreatekeys'' = None
          \<and> (\<exists>ks. config_data (snd (processProps X s)) ''gatekeeper_keys''
                    = Some (JObj [(''configEntries'', JArr (map (getConfigEntry X) ks)),
                                  (''clientInformation'',
                                   JArr (map (getClientInformation X) ks))])
                 \<and> map ak_id ks = [''000'', ''001'', ''002'', ''003'']
                 \<and> map ak_groups ks =
                     [[''stats''], [''stats'', ''watcher''],
                      [''stats'', ''watcher'', ''spender''],
                      [''stats'', ''watcher'', ''spender'', ''admin'']]
                 \<and> map ak_key ks =
                     [Some (randomBytes X (rng_pos s)), Some (randomBytes X (rng_pos s + 1)),
                      Some (randomBytes X (rng_pos s + 2)),
                      Some (randomBytes X (rng_pos s + 3))]))
   \<and> (\<not> (truthy (js_prop (config_data s) ''gatekeeper_recreatekeys'')
           \<or> keyEntriesEmpty (config_data s))
      \<longrightarrow> rng_pos (snd (processProps X s)) = rng_pos s
          \<and> config_data (snd (processProps X s)) ''gatekeeper_keys''
              = config_data s ''gatekeeper_keys'')"
proof (cases "keysDue (config_data s) = Some True")
  case True
  then have pk: "processKeys X s = regenerateKeys X s"
    by (simp add: processKeys_def)
  let ?d = "\<lambda>ks. (config_data s)
           (''gatekeeper_recreatekeys'' := None,
            ''gatekeeper_keys'' \<mapsto>
               JObj [(''configEntries'', JArr (map (getConfigEntry X) ks)),
                     (''clientInformation'', JArr (map (getClientInformation X) ks))])"
  from regenerateKeys_batch [of X s]
  obtain ks where batch: "regenerateKeys X s
        = (Running, s\<lparr>config_data := ?d ks, rng_pos := rng_pos s + 4\<rparr>)
      \<and> map ak_id ks = [''000'', ''001'', ''002'', ''003'']
      \<and> map ak_groups ks =
          [[''stats''], [''stats'', ''watcher''], [''stats'', ''watcher'', ''spender''],
           [''stats'', ''watcher'', ''spender'', ''admin'']]
      \<and> map ak_key ks =
          [Some (randomBytes X (rng_pos s)), Some (randomBytes X (rng_pos s + 1)),
           Some (randomBytes X (rng_pos s + 2)), Some (randomBytes X (rng_pos s + 3))]" ..
  note regen = batch [THEN conjunct1]
    and ids = batch [THEN conjunct2, THEN conjunct1]
    and groups = batch [THEN conjunct2, THEN conjunct2, THEN conjunct1]
    and secrets = batch [THEN conjunct2, THEN conjunct2, THEN conjunct2]
  let ?s' = "s\<lparr>config_data := ?d ks, rng_pos := rng_pos s + 4\<rparr>"
  have pp: "processProps X s = processCert X ?s'"
    by (simp add: processProps_def pk and_then_def regen)
  have st: "fst (processProps X s) = Running"
    unfolding pp using processCert_frame [of X ?s'] by simp
  have pos: "rng_pos (snd (processProps X s)) = rng_pos s + 4"
    unfolding pp using processCert_frame [of X ?s'] by simp
  have keys: "config_data (snd (processProps X s)) ''gatekeeper_keys''
               = Some (JObj [(''configEntries'', JArr (map (getConfigEntry X) ks)),
                             (''clientInformation'', JArr (map (getClientInformation X) ks))])"
    unfolding pp using processCert_frame [of X ?s'] by simp
  have flag: "config_data (snd (processProps X s)) ''gatekeeper_recreatekeys'' = None"
    unfolding pp using processCert_recreatekeys [of X ?s'] by simp
  have due: "truthy (js_prop (config_data s) ''gatekeeper_recreatekeys'')
               \<or> keyEntriesEmpty (config_data s)"
    using True keysDue_gate [of "config_data s"] by simp
  have stored: "\<exists>ks. config_data (snd (processProps X s)) ''gatekeeper_keys''
                    = Some (JObj [(''configEntries'', JArr (map (getConfigEntry X) ks)),
                                  (''clientInformation'',
                                   JArr (map (getClientInformation X) ks))])
                 \<and> map ak_id ks = [''000'', ''001'', ''002'', ''003'']
                 \<and> map ak_groups ks =
                     [[''stats''], [''stats'', ''watcher''],
                      [''stats'', ''watcher'', ''spender''],
                      [''stats'', ''watcher'', ''spender'', ''admin'']]
                 \<and> map ak_key ks =
                     [Some (randomBytes X (rng_pos s)), Some (randomBytes X (rng_pos s + 1)),
                      Some (randomBytes X (rng_pos s + 2)),
                      Some (randomBytes X (rng_pos s + 3))]"
    apply (rule exI [where x = ks])
    apply (intro conjI)
       apply (rule keys)
      apply (rule ids)
     apply (rule groups)
    apply (rule secrets)
    done
  show ?thesis
  proof (intro conjI impI)
    show "fst (processProps X s) = Running" by (rule st)
    show "rng_pos (snd (processProps X s)) = rng_pos s + 4" by (rule pos)
    show "config_data (snd (processProps X s)) ''gatekeeper_recreatekeys'' = None"
      by (rule flag)
    show "\<exists>ks. config_data (snd (processProps X s)) ''gatekeeper_keys''
                    = Some (JObj [(''configEntries'', JArr (map (getConfigEntry X) ks)),
                                  (''clientInformation'',
                                   JArr (map (getClientInformation X) ks))])
                 \<and> map ak_id ks = [''000'', ''001'', ''002'', ''003'']
                 \<and> map ak_groups ks =
                     [[''stats''], [''stats'', ''watcher''],
                      [''stats'', ''watcher'', ''spender''],
                      [''stats'', ''watcher'', ''spender'', ''admin'']]
                 \<and> map ak_key ks =
                     [Some (randomBytes X (rng_pos s)), Some (randomBytes X (rng_pos s + 1)),
                      Some (randomBytes X (rng_pos s + 2)),
                      Some (randomBytes X (rng_pos s + 3))]"
      by (rule stored)
  next
    assume "\<not> (truthy (js_prop (config_data s) ''gatekeeper_recreatekeys'')
           \<or> keyEntriesEmpty (config_data s))"
    with due show "rng_pos (snd (processProps X s)) = rng_pos s" by (rule notE [rotated])
  next
    assume "\<not> (truthy (js_prop (config_data s) ''gatekeeper_recreatekeys'')
           \<or> keyEntriesEmpty (config_data s))"
    with due show "config_data (snd (processProps X s)) ''gatekeeper_keys''
              = config_data s ''gatekeeper_keys''" by (rule notE [rotated])
  qed
next
  case False
  then have nd: "\<not> (truthy (js_prop (config_data s) ''gatekeeper_recreatekeys'')
           \<or> keyEntriesEmpty (config_data s))"
    using keysDue_gate [of "config_data s"] by simp
  from False processKeys_cases [of s X]
  have "processKeys X s = (Thrown ''TypeError'', s) \<or> processKeys X s = (Running, s)"
    by auto
  then have "rng_pos (snd (processProps X s)) = rng_pos s
          \<and> config_data (snd (processProps X s)) ''gatekeeper_keys''
              = config_data s ''gatekeeper_keys''"
    using processCert_frame [of X s] by (auto simp: processProps_def and_then_def)
  with nd show ?thesis by simp
qed

theorem key_regeneration_gate_witness:
  "config_data (snd (processProps sampleX
       (sample_app\<lparr>config_data := sample_doc(''gatekeeper_recreatekeys'' \<mapsto> JBool True)\<rparr>)))
     ''gatekeeper_keys''
     = Some (JObj [(''configEntries'',
                    JArr [JStr ''000'', JStr ''001'', JStr ''002'', JStr ''003'']),
                   (''clientInformation'',
                    JArr [JStr ''k'', JStr ''kk'', JStr ''kkk'', JStr ''kkkk''])])
   \<and> rng_pos (snd (processProps sampleX
       (sample_app\<lparr>config_data := sample_doc(''gatekeeper_recreatekeys'' \<mapsto> JBool True)\<rparr>))) = 4
   \<and> config_data (snd (processProps sampleX sample_app)) ''gatekeeper_keys''
       = sample_doc ''gatekeeper_keys''"
proof -
  let ?s = "sample_app\<lparr>config_data := sample_doc(''gatekeeper_recreatekeys'' \<mapsto> JBool True)\<rparr>"
  have due: "truthy (js_prop (config_data ?s) ''gatekeeper_recreatekeys'')
               \<or> keyEntriesEmpty (config_data ?s)"
    by (simp add: js_prop_def)
  have pos0: "rng_pos ?s = 0" by (simp add: sample_app_def)
  note gate = key_regeneration_gate [of ?s sampleX, THEN conjunct1, rule_format, OF due]
  have pos: "rng_pos (snd (processProps sampleX ?s)) = 4"
    using gate [THEN conjunct2, THEN conjunct1] unfolding pos0 by simp
  from gate [THEN conjunct2, THEN conjunct2, THEN conjunct2]
  obtain ks where batch: "config_data (snd (processProps sampleX ?s)) ''gatekeeper_keys''
                    = Some (JObj [(''configEntries'', JArr (map (getConfigEntry sampleX) ks)),
                                  (''clientInformation'',
                                   JArr (map (getClientInformation sampleX) ks))])
                 \<and> map ak_id ks = [''000'', ''001'', ''002'', ''003'']
                 \<and> map ak_groups ks =
                     [[''stats''], [''stats'', ''watcher''],
                      [''stats'', ''watcher'', ''spender''],
                      [''stats'', ''watcher'', ''spender'', ''admin'']]
                 \<and> map ak_key ks =
                     [Some (randomBytes sampleX (rng_pos ?s)),
                      Some (randomBytes sampleX (rng_pos ?s + 1)),
                      Some (randomBytes sampleX (rng_pos ?s + 2)),
                      Some (randomBytes sampleX (rng_pos ?s + 3))]" ..
  note stored = batch [THEN conjunct1]
    and ids = batch [THEN conjunct2, THEN conjunct1]
    and secrets = batch [THEN conjunct2, THEN conjunct2, THEN conjunct2]
  have ce: "getConfigEntry sampleX = (\<lambda>k. JStr (ak_id k))"
    and ci: "getClientInformation sampleX
               = (\<lambda>k. JStr (case ak_key k of None \<Rightarrow> [] | Some secret \<Rightarrow> secret))"
    and rb: "randomBytes sampleX = (\<lambda>i. replicate (Suc i) CHR ''k'')"
    by (simp_all add: sampleX_def)
  have "map (getConfigEntry sampleX) ks = map JStr (map ak_id ks)"
    unfolding ce by simp
  then have entries: "map (getConfigEntry sampleX) ks
                   = [JStr ''000'', JStr ''001'', JStr ''002'', JStr ''003'']"
    unfolding ids by simp
  have "map (getClientInformation sampleX) ks
          = map (\<lambda>key. JStr (case key of None \<Rightarrow> [] | Some secret \<Rightarrow> secret)) (map ak_key ks)"
    unfolding ci by simp
  then have infos: "map (getClientInformation sampleX) ks
                 = [JStr ''k'', JStr ''kk'', JStr ''kkk'', JStr ''kkkk'']"
    unfolding secrets pos0 rb by (simp add: eval_nat_numeral)
  have nodue: "\<not> (truthy (js_prop (config_data sample_app) ''gatekeeper_recreatekeys'')
               \<or> keyEntriesEmpty (config_data sample_app))"
    by (simp add: sample_app_def sample_doc_def keyEntriesEmpty_def js_prop_def)
  have kept: "config_data (snd (processProps sampleX sample_app)) ''gatekeeper_keys''
                = sample_doc ''gatekeeper_keys''"
    using key_regeneration_gate [of sample_app sampleX, THEN conjunct2, rule_format, OF nodue]
    by (simp add: sample_app_def)
  show ?thesis
    apply (intro conjI)
      apply (rule stored [unfolded entries infos])
     apply (rule pos)
    apply (rule kept)
    done
qed

lemma certDue_after_keys:
  "certDue (config_data (snd (processKeys X s))) = certDue (config_data s)"
  using processKeys_frame [of X s "''gatekeeper_recreatecert''"]
        processKeys_frame [of X s "''gatekeeper_sslcert''"]
        processKeys_frame [of X s "''gatekeeper_sslkey''"]
  by (simp add: certDue_def js_prop_def)

text \<open>The state in which the certificate is attempted.\<close>

lemma processProps_cert_attempt:
  assumes "fst (processKeys X s) = Running" and "certDue (config_data s)"
  shows "processProps X s =
           (Running,
            tryCreateCert X (beforeCertAttempt
              ((snd (processKeys X s))
                 \<lparr>sessionData := (sessionData s)(''cns'' \<mapsto>
                     cert_cns X (js_prop (config_data s) ''gatekeeper_cns''))\<rparr>)))"
proof -
  have cns: "js_prop (config_data (snd (processKeys X s))) ''gatekeeper_cns''
               = js_prop (config_data s) ''gatekeeper_cns''"
    using processKeys_frame [of X s "''gatekeeper_cns''"] by (simp add: js_prop_def)
  have sd: "sessionData (snd (processKeys X s)) = sessionData s"
    using processKeys_frame [of X s "''x''"] by simp
  show ?thesis
    using assms certDue_after_keys [of X s]
    by (simp add: processProps_def and_then_def processCert_def Let_def cns sd)
qed

text \<open>
  C5. When the keys step has returned and the certificate is due, the attempt
  (\<open>tryCreateCert\<close>) starts from a document without the recreate-cert flag, and the
  flag is absent afterwards, whatever \<open>cert.create\<close> does.
\<close>

theorem recreatecert_flag_consumed:
  assumes "fst (processKeys X s) = Running" and "certDue (config_data s)"
  shows "fst (processProps X s) = Running
       \<and> config_data (snd (processProps X s)) ''gatekeeper_recreatecert'' = None
       \<and> (\<exists>s1. config_data s1 ''gatekeeper_recreatecert'' = None
                \<and> snd (processProps X s) = tryCreateCert X s1)"
proof -
  let ?s1 = "beforeCertAttempt
              ((snd (processKeys X s))
                 \<lparr>sessionData := (sessionData s)(''cns'' \<mapsto>
                     cert_cns X (js_prop (config_data s) ''gatekeeper_cns''))\<rparr>)"
  have pp: "processProps X s = (Running, tryCreateCert X ?s1)"
    using assms by (rule processProps_cert_attempt)
  have gone: "config_data ?s1 ''gatekeeper_recreatecert'' = None"
    by (simp add: beforeCertAttempt_frame)
  have "config_data (tryCreateCert X ?s1) ''gatekeeper_recreatecert'' = None"
    using tryCreateCert_frame [of X ?s1 "''gatekeeper_recreatecert''"] gone by simp
  with pp gone show ?thesis by auto
qed

lemma tryCreateCert_fails:
  "certAttemptFails X (js_prop (sessionData s) ''cns'') \<Longrightarrow> tryCreateCert X s = certFailed s"
  by (simp add: certAttemptFails_def tryCreateCert_def split: option.splits)

text \<open>
  C6. When the certificate is due and the generation fails (it throws, or returns
  without completion code 0), \<open>processProps\<close> returns normally, the stored TLS key and
  certificate are what they were, the only trace is the announcement and the error
  message, and the run goes on with \<open>writeFiles\<close>.
\<close>

theorem cert_failure_keeps_material:
  assumes "fst (processKeys X s) = Running" and "certDue (config_data s)"
    and "certAttemptFails X (cert_cns X (js_prop (config_data s) ''gatekeeper_cns''))"
  shows "fst (processProps X s) = Running
       \<and> config_data (snd (processProps X s)) ''gatekeeper_sslkey''
           = config_data s ''gatekeeper_sslkey''
       \<and> config_data (snd (processProps X s)) ''gatekeeper_sslcert''
           = config_data s ''gatekeeper_sslcert''
       \<and> trace (snd (processProps X s))
           = trace s @ [ConsoleLog ''Generating gatekeeper cert. This may take a while'',
                        ConsoleLog ''error! Gatekeeper cert was not created'']
       \<and> and_then (processProps X s) (writeFiles X) = writeFiles X (snd (processProps X s))"
proof -
  let ?s0 = "(snd (processKeys X s))
                 \<lparr>sessionData := (sessionData s)(''cns'' \<mapsto>
                     cert_cns X (js_prop (config_data s) ''gatekeeper_cns''))\<rparr>"
  let ?s1 = "beforeCertAttempt ?s0"
  have pp: "processProps X s = (Running, tryCreateCert X ?s1)"
    using assms(1,2) by (rule processProps_cert_attempt)
  have "js_prop (sessionData ?s1) ''cns''
          = cert_cns X (js_prop (config_data s) ''gatekeeper_cns'')"
    by (simp add: beforeCertAttempt_frame js_prop_def)
  with assms(3) have f: "tryCreateCert X ?s1 = certFailed ?s1"
    by (simp add: tryCreateCert_fails)
  have tr: "trace (snd (processKeys X s)) = trace s"
    using processKeys_frame [of X s "''x''"] by simp
  have k: "config_data (snd (processKeys X s)) ''gatekeeper_sslkey''
             = config_data s ''gatekeeper_sslkey''"
    using processKeys_frame [of X s "''gatekeeper_sslkey''"] by simp
  have c: "config_data (snd (processKeys X s)) ''gatekeeper_sslcert''
             = config_data s ''gatekeeper_sslcert''"
    using processKeys_frame [of X s "''gatekeeper_sslcert''"] by simp
  show ?thesis
    unfolding pp f
    by (simp add: certFailed_frame beforeCertAttempt_frame tr k c and_then_def)
qed


theorem recreatecert_flag_consumed_witness:
  "config_data (snd (processProps sampleX
      (sample_app\<lparr>config_data := sample_doc(''gatekeeper_recreatecert'' \<mapsto> JBool True)\<rparr>)))
     ''gatekeeper_recreatecert'' = None
   \<and> config_data (snd (processProps
      (sampleX\<lparr>cert_create := (\<lambda>cns. Some (JObj [(''code'', JNum 0), (''key'', JStr ''K2''),
                                                  (''cert'', JStr ''C2'')]))\<rparr>)
      (sample_app\<lparr>config_data := sample_doc(''gatekeeper_recreatecert'' \<mapsto> JBool True)\<rparr>)))
     ''gatekeeper_recreatecert'' = None"
proof -
  let ?s = "sample_app\<lparr>config_data := sample_doc(''gatekeeper_recreatecert'' \<mapsto> JBool True)\<rparr>"
  let ?X = "sampleX\<lparr>cert_create := (\<lambda>cns. Some (JObj [(''code'', JNum 0), (''key'', JStr ''K2''),
                                                  (''cert'', JStr ''C2'')]))\<rparr>"
  have a: "fst (processKeys sampleX ?s) = Running"
    by (simp add: processKeys_def keysDue_def sample_app_def sample_doc_def js_prop_def)
  have a': "fst (processKeys ?X ?s) = Running"
    by (simp add: processKeys_def keysDue_def sample_app_def sample_doc_def js_prop_def)
  have b: "certDue (config_data ?s)"
    by (simp add: certDue_def js_prop_def)
  from recreatecert_flag_consumed [OF a b] recreatecert_flag_consumed [OF a' b]
  show ?thesis by simp
qed

theorem cert_failure_keeps_material_witness:
  "config_data (snd (processProps sampleX
      (sample_app\<lparr>config_data := sample_doc(''gatekeeper_recreatecert'' \<mapsto> JBool True)\<rparr>)))
     ''gatekeeper_sslkey'' = Some (JStr ''KEY'')
   \<and> config_data (snd (processProps
      (sampleX\<lparr>cert_create := (\<lambda>cns. Some (JObj [(''code'', JNum 1)]))\<rparr>)
      (sample_app\<lparr>config_data := sample_doc(''gatekeeper_recreatecert'' \<mapsto> JBool True)\<rparr>)))
     ''gatekeeper_sslcert'' = Some (JStr ''CERT'')"
proof -
  let ?s = "sample_app\<lparr>config_data := sample_doc(''gatekeeper_recreatecert'' \<mapsto> JBool True)\<rparr>"
  let ?X = "sampleX\<lparr>cert_create := (\<lambda>cns. Some (JObj [(''code'', JNum 1)]))\<rparr>"
  have a: "fst (processKeys sampleX ?s) = Running"
    by (simp add: processKeys_def keysDue_def sample_app_def sample_doc_def js_prop_def)
  have a': "fst (processKeys ?X ?s) = Running"
    by (simp add: processKeys_def keysDue_def sample_app_def sample_doc_def js_prop_def)
  have b: "certDue (config_data ?s)"
    by (simp add: certDue_def js_prop_def)
  have c: "certAttemptFails sampleX (cert_cns sampleX (js_prop (config_data ?s) ''gatekeeper_cns''))"
    by (simp add: certAttemptFails_def sampleX_def)
  have c': "certAttemptFails ?X (cert_cns ?X (js_prop (config_data ?s) ''gatekeeper_cns''))"
    by (simp add: certAttemptFails_def)
  from cert_failure_keeps_material [OF a b c] cert_failure_keeps_material [OF a' b c']
  show ?thesis by (simp add: sample_app_def sample_doc_def)
qed

section \<open>The new-password flow\<close>

lemma newPassword_answers:
  "js_prop (inquirer_prompt newPasswordQuestions e) ''password0''
     = JStr (enteredTrimmed e ''password0'')
   \<and> js_prop (inquirer_prompt newPasswordQuestions e) ''password1''
     = JStr (enteredTrimmed e ''password1'')"
  by (simp add: newPasswordQuestions_def inquirer_prompt_def inquirer_answer_def js_prop_def
        enteredTrimmed_def trimFilter_def split: option.splits)

lemma rejected_iff:
  "passwordPairRejected (inquirer_prompt newPasswordQuestions e) = pairRejected e"
  by (auto simp: passwordPairRejected_def newPassword_answers pairRejected_def pairAccepted_def
        strict_neq_def)

lemma newPasswordLoop_inputs:
  "passwordPairRejected r \<Longrightarrow> inputs s = ins \<Longrightarrow>
   (case find pairAccepted ins of
      None \<Rightarrow> fst (newPasswordLoop r s) = Waiting
    | Some good \<Rightarrow>
        fst (newPasswordLoop r s) = Running
        \<and> js_prop (fst (snd (newPasswordLoop r s))) ''password0''
            = JStr (enteredTrimmed good ''password0'')
        \<and> inputs (snd (snd (newPasswordLoop r s))) = tl (dropWhile pairRejected ins))"
proof (induction ins arbitrary: r s)
  case Nil
  then show ?case
    by (simp add: newPasswordLoop.simps [of r s] prompt_def mismatchNotice_def console_log_def
          log_event_def)
next
  case (Cons e rest)
  let ?r' = "inquirer_prompt newPasswordQuestions e"
  let ?s' = "(mismatchNotice r s)\<lparr>inputs := rest\<rparr>"
  have ins: "inputs (mismatchNotice r s) = e # rest"
    using Cons.prems(2) by (simp add: mismatchNotice_def console_log_def log_event_def)
  have step: "newPasswordLoop r s = newPasswordLoop ?r' ?s'"
    using Cons.prems(1) ins by (simp add: newPasswordLoop.simps [of r s] prompt_def)
  show ?case
  proof (cases "pairAccepted e")
    case True
    then have "\<not> passwordPairRejected ?r'"
      by (simp add: rejected_iff pairRejected_def)
    then have "newPasswordLoop ?r' ?s' = (Running, ?r', ?s')"
      by (simp add: newPasswordLoop.simps [of ?r' ?s'])
    with True show ?thesis
      by (simp add: step newPassword_answers pairRejected_def)
  next
    case False
    then have rej: "passwordPairRejected ?r'"
      by (simp add: rejected_iff pairRejected_def)
    have "inputs ?s' = rest" by simp
    from Cons.IH [OF rej this] False show ?thesis
      by (simp add: step pairRejected_def split: option.splits)
  qed
qed


lemma newPasswordLoop_state:
  "\<exists>ins tr. snd (snd (newPasswordLoop r s)) = s\<lparr>inputs := ins, trace := tr\<rparr>"
proof (induction r s rule: newPasswordLoop.induct)
  case (1 r s)
  have self: "s = s\<lparr>inputs := inputs s, trace := trace s\<rparr>" by simp
  have notice: "\<exists>tr. mismatchNotice r s = s\<lparr>trace := tr\<rparr>"
    by (auto simp: mismatchNotice_def console_log_def log_event_def intro: exI [of _ "trace s"])
  then obtain tr0 where tr0: "mismatchNotice r s = s\<lparr>trace := tr0\<rparr>" ..
  show ?case
  proof (cases "passwordPairRejected r")
    case False
    then show ?thesis
      by (simp add: newPasswordLoop.simps [of r s])
         (rule exI [of _ "inputs s"], rule exI [of _ "trace s"], simp)
  next
    case True
    show ?thesis
    proof (cases "inputs s")
      case Nil
      then have "newPasswordLoop r s = (Waiting, r, s\<lparr>trace := tr0\<rparr>)"
        using True by (simp add: newPasswordLoop.simps [of r s] prompt_def tr0)
      moreover have "s\<lparr>trace := tr0\<rparr> = s\<lparr>inputs := inputs s, trace := tr0\<rparr>" by simp
      ultimately show ?thesis by (metis snd_conv)
    next
      case (Cons e rest)
      let ?r' = "inquirer_prompt newPasswordQuestions e"
      let ?s' = "s\<lparr>trace := tr0, inputs := rest\<rparr>"
      have p: "prompt (Some newPasswordQuestions) (mismatchNotice r s) = (Some ?r', ?s')"
        using Cons by (simp add: prompt_def tr0)
      have step: "newPasswordLoop r s = newPasswordLoop ?r' ?s'"
        using True p by (simp add: newPasswordLoop.simps [of r s])
      from "1.IH" [OF True p [symmetric] refl]
      obtain ins tr where "snd (snd (newPasswordLoop ?r' ?s')) = ?s'\<lparr>inputs := ins, trace := tr\<rparr>"
        by blast
      then have "snd (snd (newPasswordLoop r s)) = s\<lparr>inputs := ins, trace := tr\<rparr>"
        by (simp add: step)
      then show ?thesis by blast
    qed
  qed
qed

text \<open>
  C7. Without a configuration archive, \<open>setupConfigArchive\<close> prompts for the pair of
  passwords once per pair of entries, up to the first pair whose entries are non-empty
  and equal once trimmed. It then stores the trimmed first entry as the configuration
  password and binds it to the new document (\<open>new Config()\<close> with the hash of that
  password). When no pair the operator enters is accepted, no password is stored and
  the process keeps waiting.
\<close>

theorem new_password_flow:
  assumes "\<not> existsSync (fs s) (destinationPath X configArchiveFileName)"
  shows "(case find pairAccepted (inputs s) of
            None \<Rightarrow>
              fst (setupConfigArchive X s) = Waiting
              \<and> sessionData (snd (setupConfigArchive X s)) = sessionData s
          | Some good \<Rightarrow>
              fst (setupConfigArchive X s) \<in> {Running, Thrown ''TypeError''}
              \<and> sessionData (snd (setupConfigArchive X s))
                  = (sessionData s)(''configurationPassword'' \<mapsto>
                       JStr (enteredTrimmed good ''password0''))
              \<and> config_data (snd (setupConfigArchive X s))
                  = (Config_data X)(''adminhash'' \<mapsto>
                       htpasswd X (JStr (enteredTrimmed good ''password0'')))
              \<and> inputs (snd (setupConfigArchive X s)) = tl (dropWhile pairRejected (inputs s)))"
proof -
  let ?s0 = "s\<lparr>config_data := Config_data X, config_validateErrors := Config_validateErrors X\<rparr>"
  let ?s1 = "log_event (StdoutWrite (ansi_clear X @ ansi_reset X)) ?s0"
  let ?L = "newPasswordLoop Map.empty ?s1"
  have rej: "passwordPairRejected Map.empty"
    by (simp add: passwordPairRejected_def js_prop_def)
  have ins: "inputs ?s1 = inputs s" by (simp add: log_event_def)
  note loop = newPasswordLoop_inputs [OF rej ins]
  obtain ins' tr where st: "snd (snd ?L) = ?s1\<lparr>inputs := ins', trace := tr\<rparr>"
    using newPasswordLoop_state [of Map.empty ?s1] by blast
  have sd: "sessionData (snd (snd ?L)) = sessionData s"
    and cd: "config_data (snd (snd ?L)) = Config_data X"
    unfolding st by (simp_all add: log_event_def)
  have new: "setupConfigArchive X s = and_then (createWithNewPassword X ?s0) (finishSetup X)"
    using assms by (simp add: setupConfigArchive_def Let_def)
  show ?thesis
  proof (cases "find pairAccepted (inputs s)")
    case None
    with loop have w: "fst ?L = Waiting" by simp
    have "createWithNewPassword X ?s0 = (Waiting, snd (snd ?L))"
      using w by (simp add: createWithNewPassword_def split_beta)
    then show ?thesis
      using None sd by (simp add: new and_then_def)
  next
    case (Some good)
    with loop have r: "fst ?L = Running"
      and pw: "js_prop (fst (snd ?L)) ''password0'' = JStr (enteredTrimmed good ''password0'')"
      and rest: "inputs (snd (snd ?L)) = tl (dropWhile pairRejected (inputs s))"
      by simp_all
    let ?s2 = "(snd (snd ?L))\<lparr>sessionData :=
                 (sessionData s)(''configurationPassword'' \<mapsto>
                    JStr (enteredTrimmed good ''password0''))\<rparr>"
    have c: "createWithNewPassword X ?s0 = (Running, ?s2)"
      using r pw sd by (simp add: createWithNewPassword_def split_beta)
    have f: "setupConfigArchive X s = finishSetup X ?s2"
      by (simp add: new c and_then_def)
    show ?thesis
      using Some cd rest
      by (simp add: f finishSetup_def Let_def js_prop_def split: option.splits)
  qed
qed

theorem new_password_flow_witness:
  "sessionData (snd (setupConfigArchive sampleX
      (App_new sampleX Map.empty
         [[''password0'' \<mapsto> JStr ''abc123'', ''password1'' \<mapsto> JStr ''abc124''],
          [''password0'' \<mapsto> JStr '' abc123'', ''password1'' \<mapsto> JStr ''abc123 '']])))
     ''configurationPassword'' = Some (JStr ''abc123'')"
proof -
  let ?ins = "[[''password0'' \<mapsto> JStr ''abc123'', ''password1'' \<mapsto> JStr ''abc124''],
          [''password0'' \<mapsto> JStr '' abc123'', ''password1'' \<mapsto> JStr ''abc123 '']]"
  have a: "\<not> existsSync (fs (App_new sampleX Map.empty ?ins))
             (destinationPath sampleX configArchiveFileName)"
    by (simp add: App_new_def existsSync_def Let_def)
  have b: "find pairAccepted (inputs (App_new sampleX Map.empty ?ins))
             = Some [''password0'' \<mapsto> JStr '' abc123'', ''password1'' \<mapsto> JStr ''abc123 '']"
    by (simp add: App_new_def existsSync_def Let_def pairAccepted_def enteredTrimmed_def
          js_trim_def isWhiteSpace_def)
  have c: "enteredTrimmed [''password0'' \<mapsto> JStr '' abc123'', ''password1'' \<mapsto> JStr ''abc123 '']
             ''password0'' = ''abc123''"
    by (simp add: enteredTrimmed_def js_trim_def isWhiteSpace_def)
  from new_password_flow [OF a] show ?thesis
    by (simp add: b c)
qed

section \<open>The client key archive\<close>

lemma startWizard_sessionData: "sessionData (snd (startWizard X s)) = sessionData s"
  by (simp add: startWizard_def prompt_def Let_def split: option.splits list.splits prod.splits)

lemma wizardStep_snapshot:
  "\<not> noWizard s \<Longrightarrow>
   js_prop (sessionData (snd (wizardStep X s))) ''gatekeeper_clientkeyspassword''
     = js_prop (config_data s) ''gatekeeper_clientkeyspassword''"
  by (simp add: wizardStep_def Let_def startWizard_sessionData js_prop_def)

lemma clientInformation_array:
  assumes "js_get gk ''clientInformation'' = Some (JArr infos)"
  shows "truthy gk"
  using assms by (cases gk) (simp_all split: if_splits)

lemma hasClientInformation_array:
  "js_get (js_prop d ''gatekeeper_keys'') ''clientInformation'' = Some (JArr infos)
   \<Longrightarrow> hasClientInformation d"
  by (simp add: hasClientInformation_def clientInformation_array)


lemma writeArchiveEntry_effect:
  "fs (writeArchiveEntry X entry content s)
     = snd (writeEntry X (destinationPath X keyArchiveFileName)
              (js_prop (config_data s) ''gatekeeper_clientkeyspassword'') entry content (fs s))
   \<and> config_data (writeArchiveEntry X entry content s) = config_data s
   \<and> (\<exists>logs. trace (writeArchiveEntry X entry content s)
                 = trace s @ ArchiveWriteEntry (destinationPath X keyArchiveFileName)
                      (js_prop (config_data s) ''gatekeeper_clientkeyspassword'') entry content
                    # logs
              \<and> filter isFsEvent logs = [])"
  by (simp add: writeArchiveEntry_def Let_def log_event_def console_log_def)

lemma removeStale_effect:
  "fs (if keyArchiveStale X s then unlinkSync p s else s)
     = (if keyArchiveStale X s then (fs s)(p := None) else fs s)
   \<and> config_data (if keyArchiveStale X s then unlinkSync p s else s) = config_data s
   \<and> trace (if keyArchiveStale X s then unlinkSync p s else s)
     = trace s @ (if keyArchiveStale X s then [FsUnlink p] else [])"
  by (simp add: unlinkSync_def log_event_def)

text \<open>
  The block of lines 361-377 on a document whose \<open>clientInformation\<close> is an array and
  whose credential is a primitive: the existing archive is unlinked exactly when the
  credential differs from the value \<open>sessionData.gatekeeper_clientkeyspassword\<close> and
  the file exists; the unlink comes before the two entry writes, which then start from
  a filesystem without the archive. Otherwise nothing is unlinked and the entries are
  written onto the filesystem as it is.
\<close>

lemma key_archive_block:
  assumes "js_get (js_prop (config_data s) ''gatekeeper_keys'') ''clientInformation''
             = Some (JArr infos)"
    and "isPrimitive (js_prop (config_data s) ''gatekeeper_clientkeyspassword'')"
  shows "filter isFsEvent (drop (length (trace s)) (trace (snd (writeKeyArchive X s))))
           = (if strict_neq (js_prop (sessionData s) ''gatekeeper_clientkeyspassword'')
                            (js_prop (config_data s) ''gatekeeper_clientkeyspassword'')
                 \<and> existsSync (fs s) (destinationPath X keyArchiveFileName)
              then [FsUnlink (destinationPath X keyArchiveFileName)] else [])
             @ [ArchiveWriteEntry (destinationPath X keyArchiveFileName)
                  (js_prop (config_data s) ''gatekeeper_clientkeyspassword'')
                  ''keys.txt'' (JStr (js_join infos [CHR 0x0A])),
                ArchiveWriteEntry (destinationPath X keyArchiveFileName)
                  (js_prop (config_data s) ''gatekeeper_clientkeyspassword'')
                  ''cacert.pem'' (js_prop (config_data s) ''gatekeeper_sslcert'')]
       \<and> fs (snd (writeKeyArchive X s))
           = snd (writeEntry X (destinationPath X keyArchiveFileName)
                    (js_prop (config_data s) ''gatekeeper_clientkeyspassword'')
                    ''cacert.pem'' (js_prop (config_data s) ''gatekeeper_sslcert'')
                    (snd (writeEntry X (destinationPath X keyArchiveFileName)
                            (js_prop (config_data s) ''gatekeeper_clientkeyspassword'')
                            ''keys.txt'' (JStr (js_join infos [CHR 0x0A]))
                            (if strict_neq (js_prop (sessionData s) ''gatekeeper_clientkeyspassword'')
                                           (js_prop (config_data s) ''gatekeeper_clientkeyspassword'')
                                \<and> existsSync (fs s) (destinationPath X keyArchiveFileName)
                             then (fs s)(destinationPath X keyArchiveFileName := None)
                             else fs s))))
       \<and> fst (writeKeyArchive X s) = Running"
proof -
  let ?p = "destinationPath X keyArchiveFileName"
  let ?pw = "js_prop (config_data s) ''gatekeeper_clientkeyspassword''"
  let ?txt = "JStr (js_join infos [CHR 0x0A])"
  let ?cert = "js_prop (config_data s) ''gatekeeper_sslcert''"
  let ?c = "strict_neq (js_prop (sessionData s) ''gatekeeper_clientkeyspassword'') ?pw
            \<and> existsSync (fs s) ?p"
  let ?s1 = "console_log (''   create '' @ keyArchiveFileName) s"
  let ?s2 = "if keyArchiveStale X ?s1 then unlinkSync ?p ?s1 else ?s1"
  let ?s3 = "writeArchiveEntry X ''keys.txt'' ?txt ?s2"
  let ?s4 = "writeArchiveEntry X ''cacert.pem'' ?cert ?s3"
  have c1: "config_data ?s1 = config_data s" and f1: "fs ?s1 = fs s"
    and sd1: "sessionData ?s1 = sessionData s"
    and t1: "trace ?s1 = trace s @ [ConsoleLog (''   create '' @ keyArchiveFileName)]"
    by (simp_all add: console_log_def log_event_def)
  have stale: "keyArchiveStale X ?s1 = ?c"
    by (simp only: keyArchiveStale_def c1 f1 sd1)
  have c2: "config_data ?s2 = config_data s"
    using removeStale_effect [of X ?s1 ?p] c1 by simp
  have f2: "fs ?s2 = (if ?c then (fs s)(?p := None) else fs s)"
    using removeStale_effect [of X ?s1 ?p] f1 stale by simp
  have t2: "trace ?s2 = trace s @ ConsoleLog (''   create '' @ keyArchiveFileName)
                # (if ?c then [FsUnlink ?p] else [])"
    using removeStale_effect [of X ?s1 ?p] t1 stale by simp
  have has: "hasClientInformation (config_data ?s1)"
    unfolding c1 using assms(1) by (rule hasClientInformation_array)
  have wk: "writeKeyArchive X s = (Running, ?s4)"
    unfolding writeKeyArchive_def Let_def
    by (simp only: has if_True c2 assms(1) option.case jsval.case)
  obtain l3 where t3: "trace ?s3 = trace ?s2 @ ArchiveWriteEntry ?p ?pw ''keys.txt'' ?txt # l3"
    and q3: "filter isFsEvent l3 = []"
    using writeArchiveEntry_effect [of X "''keys.txt''" ?txt ?s2] unfolding c2 by blast
  have c3: "config_data ?s3 = config_data s"
    using writeArchiveEntry_effect [of X "''keys.txt''" ?txt ?s2] c2 by simp
  have f3: "fs ?s3 = snd (writeEntry X ?p ?pw ''keys.txt'' ?txt (fs ?s2))"
    using writeArchiveEntry_effect [of X "''keys.txt''" ?txt ?s2] unfolding c2 by simp
  obtain l4 where t4: "trace ?s4 = trace ?s3 @ ArchiveWriteEntry ?p ?pw ''cacert.pem'' ?cert # l4"
    and q4: "filter isFsEvent l4 = []"
    using writeArchiveEntry_effect [of X "''cacert.pem''" ?cert ?s3] unfolding c3 by blast
  have f4: "fs ?s4 = snd (writeEntry X ?p ?pw ''cacert.pem'' ?cert (fs ?s3))"
    using writeArchiveEntry_effect [of X "''cacert.pem''" ?cert ?s3] unfolding c3 by simp
  have tr: "trace ?s4 = trace s @
      (ConsoleLog (''   create '' @ keyArchiveFileName)
        # (if ?c then [FsUnlink ?p] else [])
        @ ArchiveWriteEntry ?p ?pw ''keys.txt'' ?txt # l3
        @ ArchiveWriteEntry ?p ?pw ''cacert.pem'' ?cert # l4)"
    unfolding t4 t3 t2 by simp
  have ev: "filter isFsEvent (drop (length (trace s)) (trace ?s4))
      = (if ?c then [FsUnlink ?p] else [])
        @ [ArchiveWriteEntry ?p ?pw ''keys.txt'' ?txt,
           ArchiveWriteEntry ?p ?pw ''cacert.pem'' ?cert]"
    unfolding tr using q3 q4 by simp
  have fsys: "fs ?s4 = snd (writeEntry X ?p ?pw ''cacert.pem'' ?cert
                 (snd (writeEntry X ?p ?pw ''keys.txt'' ?txt
                    (if ?c then (fs s)(?p := None) else fs s))))"
    unfolding f4 f3 f2 ..
  show ?thesis
    unfolding wk snd_conv fst_conv ev fsys by simp
qed


section \<open>The exit-status sentinel\<close>

lemma objects_kept:
  "config_data (mkdirSync p s) = config_data s"
  "sessionData (mkdirSync p s) = sessionData s"
  "config_data (writeFileSync p c s) = config_data s"
  "sessionData (writeFileSync p c s) = sessionData s"
  "config_data (console_log m s) = config_data s"
  "sessionData (console_log m s) = sessionData s"
  "config_data (unlinkSync p s) = config_data s"
  "sessionData (unlinkSync p s) = sessionData s"
  by (simp_all add: mkdirSync_def writeFileSync_def console_log_def unlinkSync_def log_event_def)

lemma writeTemplates_result:
  "config_data (snd (writeTemplates X name ts s)) = config_data s
   \<and> sessionData (snd (writeTemplates X name ts s)) = sessionData s
   \<and> fst (writeTemplates X name ts s)
       = (if list_all (\<lambda>t. renderFile X (templatePath X (path_join X [name, t]))
                              (config_data s ++ sessionData s) \<noteq> None) ts
          then Running else Thrown ''render'')"
proof (induction ts arbitrary: s)
  case Nil
  show ?case by simp
next
  case (Cons a ts)
  let ?p = "path_join X [name, a]"
  let ?dest = "destinationPath X ?p"
  let ?dir = "path_dirname X ?dest"
  let ?s1 = "if \<not> existsSync (fs s) ?dir then mkdirSync ?dir s else s"
  have o1: "config_data ?s1 = config_data s" "sessionData ?s1 = sessionData s"
    by (simp_all add: objects_kept)
  show ?case
  proof (cases "renderFile X (templatePath X ?p) (config_data s ++ sessionData s)")
    case None
    have eq: "writeTemplates X name (a # ts) s = (Thrown ''render'', ?s1)"
      by (simp only: writeTemplates.simps Let_def o1 None option.case)
    show ?thesis
      unfolding eq fst_conv snd_conv o1 using None by simp
  next
    case (Some result)
    let ?s2 = "writeFileSync ?dest result (console_log (''   create '' @ ?p) ?s1)"
    have o2: "config_data ?s2 = config_data s" "sessionData ?s2 = sessionData s"
      by (simp_all only: objects_kept o1)
    have step: "writeTemplates X name (a # ts) s = writeTemplates X name ts ?s2"
      by (simp only: writeTemplates.simps Let_def o1 Some option.case)
    show ?thesis
      unfolding step using Cons.IH [of ?s2] Some unfolding o2 by simp
  qed
qed

lemma writeAllTemplates_result:
  "config_data (snd (writeAllTemplates X ms s)) = config_data s
   \<and> sessionData (snd (writeAllTemplates X ms s)) = sessionData s
   \<and> (fst (writeAllTemplates X ms s) = Running
        \<longleftrightarrow> list_all
             (\<lambda>m. list_all
                (\<lambda>t. renderFile X (templatePath X (path_join X [pname m, t]))
                       (config_data s ++ sessionData s) \<noteq> None)
                (ptemplates m (config_data s))) ms)"
proof (induction ms arbitrary: s)
  case Nil
  show ?case by simp
next
  case (Cons m ms)
  let ?r = "writeTemplates X (pname m) (ptemplates m (config_data s)) s"
  note t = writeTemplates_result [of X "pname m" "ptemplates m (config_data s)" s]
  show ?case
  proof (cases "fst ?r = Running")
    case True
    then have "writeAllTemplates X (m # ms) s = writeAllTemplates X ms (snd ?r)"
      by (simp add: and_then_def)
    then show ?thesis
      using Cons.IH [of "snd ?r"] t True by (simp split: if_splits)
  next
    case False
    then have "writeAllTemplates X (m # ms) s = ?r"
      by (simp add: and_then_def)
    then show ?thesis
      using t False by (simp split: if_splits)
  qed
qed

lemma writeKeyArchive_status:
  "(fst (writeKeyArchive X s) = Running) = clientInformationJoins (config_data s)"
  by (simp add: writeKeyArchive_def Let_def clientInformationJoins_def objects_kept
        split: option.splits jsval.splits)


lemma writeConfigArchive_objects:
  "config_data (writeConfigArchive X s) = config_data s
   \<and> sessionData (writeConfigArchive X s) = sessionData s"
  by (simp add: writeConfigArchive_def Let_def console_log_def log_event_def)

lemma writeExitStatus_effect:
  "fst (writeExitStatus X s) = Running
   \<and> fs (snd (writeExitStatus X s)) (exitStatusPath X) = Some (File ''EXIT_STATUS=0'')
   \<and> last (trace (snd (writeExitStatus X s))) = FsWriteFile (exitStatusPath X) ''EXIT_STATUS=0''"
  by (simp add: writeExitStatus_def writeFileSync_def log_event_def)

text \<open>
  C10. \<open>writeFiles\<close> runs to its end exactly when every template renders and
  \<open>clientInformation\<close> can be joined, which does not depend on how \<open>serialize\<close> and
  \<open>writeEntry\<close> end. Whenever it does, its last action writes the sentinel
  \<open>EXIT_STATUS=0\<close>, also after a reported failure of the configuration archive or of
  an entry of the client key archive.
\<close>

theorem sentinel_despite_write_failures:
  "(writeFilesCompletes X s \<longrightarrow>
       fst (writeFiles X s) = Running
     \<and> fs (snd (writeFiles X s)) (exitStatusPath X) = Some (File ''EXIT_STATUS=0'')
     \<and> last (trace (snd (writeFiles X s))) = FsWriteFile (exitStatusPath X) ''EXIT_STATUS=0'')
   \<and> (fst (writeFiles X s) = Running \<longrightarrow> writeFilesCompletes X s)
   \<and> writeFilesCompletes (X\<lparr>serialize := sz, writeEntry := we\<rparr>) s = writeFilesCompletes X s"
proof -
  let ?d = "resolveCustomPaths pathProps (config_data s)"
  let ?s2 = "(writeConfigArchive X s)\<lparr>config_data := ?d\<rparr>"
  let ?A = "writeAllTemplates X (prompters X) ?s2"
  let ?B = "and_then ?A (writeKeyArchive X)"
  have d2: "config_data ?s2 = ?d" and sd2: "sessionData ?s2 = sessionData s"
    by (simp_all add: writeConfigArchive_objects)
  have wf: "writeFiles X s = and_then ?B (writeExitStatus X)"
    by (simp add: writeFiles_def Let_def writeConfigArchive_objects)
  note A = writeAllTemplates_result [of X "prompters X" ?s2, unfolded d2 sd2]
  have a: "(fst ?A = Running) = templatesRender X ?d (sessionData s)"
    using A by (simp add: templatesRender_def)
  have b: "(fst ?B = Running) = writeFilesCompletes X s"
  proof (cases "fst ?A = Running")
    case True
    then have "?B = writeKeyArchive X (snd ?A)" by (simp add: and_then_def)
    then show ?thesis
      using True a A writeKeyArchive_status [of X "snd ?A"]
      by (simp add: writeFilesCompletes_def)
  next
    case False
    then have "?B = ?A" by (simp add: and_then_def)
    then show ?thesis using False a by (simp add: writeFilesCompletes_def)
  qed
  have c: "writeFilesCompletes X s \<Longrightarrow> writeFiles X s = writeExitStatus X (snd ?B)"
    unfolding wf using b by (simp add: and_then_def)
  have d: "fst (writeFiles X s) = Running \<Longrightarrow> writeFilesCompletes X s"
    unfolding wf using b by (auto simp: and_then_def split: if_splits)
  have e: "writeFilesCompletes (X\<lparr>serialize := sz, writeEntry := we\<rparr>) s = writeFilesCompletes X s"
    by (simp add: writeFilesCompletes_def templatesRender_def templatePath_def)
  show ?thesis
  proof (intro conjI impI)
    assume w: "writeFilesCompletes X s"
    show "fst (writeFiles X s) = Running"
      unfolding c [OF w] using writeExitStatus_effect [of X "snd ?B"] by (rule conjunct1)
    show "fs (snd (writeFiles X s)) (exitStatusPath X) = Some (File ''EXIT_STATUS=0'')"
      unfolding c [OF w] using writeExitStatus_effect [of X "snd ?B"] by blast
    show "last (trace (snd (writeFiles X s))) = FsWriteFile (exitStatusPath X) ''EXIT_STATUS=0''"
      unfolding c [OF w] using writeExitStatus_effect [of X "snd ?B"] by blast
  next
    assume "fst (writeFiles X s) = Running"
    then show "writeFilesCompletes X s" by (rule d)
  next
    show "writeFilesCompletes (X\<lparr>serialize := sz, writeEntry := we\<rparr>) s
            = writeFilesCompletes X s" by (rule e)
  qed
qed

theorem sentinel_despite_write_failures_witness:
  "fst (writeFiles sampleX sample_app) = Running
   \<and> fs (snd (writeFiles sampleX sample_app)) ''/data/exitStatus.sh'' = Some (File ''EXIT_STATUS=0'')
   \<and> last (trace (writeConfigArchive sampleX sample_app))
       = ConsoleLog ''error! Config archive was not written''"
proof -
  have p: "exitStatusPath sampleX = ''/data/exitStatus.sh''"
    by (simp add: exitStatusPath_def sampleX_def)
  have d: "resolveCustomPaths pathProps sample_doc = sample_doc"
    by (simp add: pathProps_def sample_doc_def js_prop_def)
  have r: "templatesRender sampleX sample_doc sd" for sd
    by (simp add: templatesRender_def sampleX_def)
  have j: "clientInformationJoins sample_doc"
    by (simp add: clientInformationJoins_def sample_doc_def js_prop_def)
  have a: "writeFilesCompletes sampleX sample_app"
    unfolding writeFilesCompletes_def by (simp add: sample_app_def d r j)
  have t: "last (trace (writeConfigArchive sampleX sample_app))
       = ConsoleLog ''error! Config archive was not written''"
    by (simp add: writeConfigArchive_def Let_def console_log_def log_event_def sampleX_def)
  from sentinel_despite_write_failures [of sampleX sample_app] a t show ?thesis
    by (simp add: p)
qed

section \<open>The version override\<close>

lemma passwordLoop_state:
  "\<exists>ins tr. snd (snd (passwordLoop r s)) = s\<lparr>inputs := ins, trace := tr\<rparr>"
proof (induction r s rule: passwordLoop.induct)
  case (1 r s)
  show ?case
  proof (cases "truthy (js_prop r ''password'')")
    case True
    then show ?thesis
      by (simp add: passwordLoop.simps [of r s])
         (rule exI [of _ "inputs s"], rule exI [of _ "trace s"], simp)
  next
    case False
    show ?thesis
    proof (cases "inputs s")
      case Nil
      then have "passwordLoop r s = (Waiting, r, s)"
        using False by (simp add: passwordLoop.simps [of r s] prompt_def)
      then show ?thesis
        by simp (rule exI [of _ "inputs s"], rule exI [of _ "trace s"], simp)
    next
      case (Cons e rest)
      let ?r' = "inquirer_prompt passwordQuestions e"
      let ?s' = "s\<lparr>inputs := rest\<rparr>"
      have p: "prompt (Some passwordQuestions) s = (Some ?r', ?s')"
        using Cons by (simp add: prompt_def)
      have step: "passwordLoop r s = passwordLoop ?r' ?s'"
        using False p by (simp add: passwordLoop.simps [of r s])
      from "1.IH" [OF False p [symmetric] refl]
      obtain ins tr where "snd (snd (passwordLoop ?r' ?s')) = ?s'\<lparr>inputs := ins, trace := tr\<rparr>"
        by blast
      then have "snd (snd (passwordLoop r s)) = s\<lparr>inputs := ins, trace := tr\<rparr>"
        by (simp add: step)
      then show ?thesis by blast
    qed
  qed
qed

lemma sessionData_createWithNewPassword:
  "k \<noteq> ''configurationPassword''
   \<Longrightarrow> sessionData (snd (createWithNewPassword X s)) k = sessionData s k"
proof -
  let ?s0 = "log_event (StdoutWrite (ansi_clear X @ ansi_reset X)) s"
  obtain ins tr where st: "snd (snd (newPasswordLoop Map.empty ?s0)) = ?s0\<lparr>inputs := ins, trace := tr\<rparr>"
    using newPasswordLoop_state [of Map.empty ?s0] by blast
  have sd: "sessionData (snd (snd (newPasswordLoop Map.empty ?s0))) = sessionData s"
    unfolding st by (simp add: log_event_def)
  assume "k \<noteq> ''configurationPassword''"
  then show ?thesis
    by (simp add: createWithNewPassword_def split_beta sd)
qed

lemma sessionData_resolvePassword:
  "k \<noteq> ''configurationPassword''
   \<Longrightarrow> sessionData (snd (resolvePassword X s)) k = sessionData s k"
proof -
  let ?s0 = "log_event (StdoutWrite (ansi_reset X)) s"
  obtain ins tr where st: "snd (snd (passwordLoop Map.empty ?s0)) = ?s0\<lparr>inputs := ins, trace := tr\<rparr>"
    using passwordLoop_state [of Map.empty ?s0] by blast
  have sd: "sessionData (snd (snd (passwordLoop Map.empty ?s0))) = sessionData s"
    unfolding st by (simp add: log_event_def)
  assume "k \<noteq> ''configurationPassword''"
  then show ?thesis
    by (simp add: resolvePassword_def split_beta sd)
qed

lemma sessionData_loadArchive:
  "k \<noteq> ''gatekeeper_clientkeyspassword_c''
   \<Longrightarrow> sessionData (snd (loadArchive X s)) k = sessionData s k"
  by (simp add: loadArchive_def console_log_def log_event_def Let_def
      split: sum.splits prod.splits)

lemma sessionData_finishSetup: "sessionData (snd (finishSetup X s)) = sessionData s"
  by (simp add: finishSetup_def Let_def split: option.splits)

lemma sessionData_and_then:
  "sessionData (snd r) k = sessionData s k
   \<Longrightarrow> (\<And>t. sessionData (snd (f t)) k = sessionData t k)
   \<Longrightarrow> sessionData (snd (and_then r f)) k = sessionData s k"
  by (simp add: and_then_def)

lemma sessionData_setupConfigArchive:
  assumes "k \<notin> set sessionWritten"
  shows "sessionData (snd (setupConfigArchive X s)) k = sessionData s k"
proof -
  from assms have k: "k \<noteq> ''configurationPassword''" "k \<noteq> ''gatekeeper_clientkeyspassword_c''"
    by (simp_all add: sessionWritten_def)
  let ?s0 = "s\<lparr>config_data := Config_data X, config_validateErrors := Config_validateErrors X\<rparr>"
  have a: "sessionData (snd (createWithNewPassword X ?s0)) k = sessionData s k"
    using sessionData_createWithNewPassword [OF k(1), of X ?s0] by simp
  have b: "sessionData (snd (resolvePassword X ?s0)) k = sessionData s k"
    using sessionData_resolvePassword [OF k(1), of X ?s0] by simp
  have c: "sessionData (snd (and_then (resolvePassword X ?s0) (loadArchive X))) k = sessionData s k"
    using b sessionData_loadArchive [OF k(2), of X] by (rule sessionData_and_then)
  show ?thesis
    unfolding setupConfigArchive_def Let_def
    by (simp add: sessionData_and_then [OF a] sessionData_and_then [OF c] sessionData_finishSetup)
qed

lemma sessionData_wizardStep:
  assumes "k \<notin> set sessionWritten"
  shows "sessionData (snd (wizardStep X s)) k = sessionData s k"
  using assms
  by (simp add: wizardStep_def Let_def startWizard_sessionData sessionWritten_def)

lemma sessionData_processProps:
  assumes "k \<notin> set sessionWritten"
  shows "sessionData (snd (processProps X s)) k = sessionData s k"
proof -
  have c: "sessionData (snd (processCert X t)) k = sessionData t k" for t
    using assms
    by (simp add: processCert_def Let_def tryCreateCert_def certFailed_def beforeCertAttempt_def
          console_log_def log_event_def sessionWritten_def split: option.splits)
  have "sessionData (snd (processKeys X s)) k = sessionData s k"
    using processKeys_frame [of X s k] by simp
  then show ?thesis
    unfolding processProps_def using c by (rule sessionData_and_then)
qed

lemma sessionData_writeKeyArchive:
  "sessionData (snd (writeKeyArchive X s)) = sessionData s"
  by (simp add: writeKeyArchive_def Let_def writeArchiveEntry_def objects_kept log_event_def
        console_log_def unlinkSync_def split: option.splits jsval.splits)

lemma sessionData_writeFiles: "sessionData (snd (writeFiles X s)) k = sessionData s k"
proof -
  let ?s2 = "(writeConfigArchive X s)\<lparr>config_data := resolveCustomPaths pathProps (config_data s)\<rparr>"
  have a: "sessionData (snd (writeAllTemplates X (prompters X) ?s2)) k = sessionData s k"
    using writeAllTemplates_result [of X "prompters X" ?s2]
    by (simp add: writeConfigArchive_objects)
  have b: "sessionData (snd (and_then (writeAllTemplates X (prompters X) ?s2) (writeKeyArchive X))) k
             = sessionData s k"
    using a by (rule sessionData_and_then) (simp add: sessionData_writeKeyArchive)
  have c: "sessionData (snd (writeExitStatus X t)) k = sessionData t k" for t
    by (simp add: writeExitStatus_def objects_kept)
  have wf: "writeFiles X s
      = and_then (and_then (writeAllTemplates X (prompters X) ?s2) (writeKeyArchive X))
          (writeExitStatus X)"
    by (simp add: writeFiles_def Let_def writeConfigArchive_objects)
  show ?thesis
    unfolding wf using b c by (rule sessionData_and_then)
qed

lemma sessionData_afterSetup:
  assumes "k \<notin> set sessionWritten"
  shows "sessionData (snd (afterSetup X s)) k = sessionData s k"
proof -
  let ?s1 = "if \<not> truthy (js_prop (sessionData s) ''noSplashScreen'')
             then log_event SplashShow s else s"
  have s1: "sessionData ?s1 k = sessionData s k" by (simp add: log_event_def)
  have w: "sessionData (snd (wizardStep X ?s1)) k = sessionData s k"
    using sessionData_wizardStep [OF assms, of X ?s1] s1 by simp
  have p: "sessionData (snd (and_then (wizardStep X ?s1) (processProps X))) k = sessionData s k"
    using w sessionData_processProps [OF assms, of X] by (rule sessionData_and_then)
  have f: "sessionData (snd (and_then (and_then (wizardStep X ?s1) (processProps X))
             (writeFiles X))) k = sessionData s k"
    using p sessionData_writeFiles by (rule sessionData_and_then)
  have u: "sessionData (snd (unattendedFail ?s1)) k = sessionData s k"
    using s1 by (simp add: unattendedFail_def objects_kept)
  show ?thesis
    unfolding afterSetup_def Let_def using f u by simp
qed

lemma sessionData_start:
  assumes "k \<notin> set sessionWritten" and "setupDir_init X = Some dir"
  shows "sessionData (snd (start X options s)) k = sessionData (initSession X options dir s) k"
proof -
  have "sessionData (snd (setupConfigArchive X (initSession X options dir s))) k
          = sessionData (initSession X options dir s) k"
    using assms(1) by (rule sessionData_setupConfigArchive)
  then have "sessionData (snd (and_then (setupConfigArchive X (initSession X options dir s))
                (afterSetup X))) k = sessionData (initSession X options dir s) k"
    using sessionData_afterSetup [OF assms(1), of X] by (rule sessionData_and_then)
  then show ?thesis by (simp add: start_def assms(2))
qed

text \<open>
  C9, as amended. With \<open>VERSION_OVERRIDE\<close> set to \<open>true\<close>, the session data that
  \<open>start\<close> sets up has the gatekeeper, proxy, proxycron, pycoin, otsclient, bitcoin
  and lightning pins at \<open>latest\<close> and the sparkwallet pin at \<open>standalone\<close>, whatever
  the per-service version variables say, and the pins keep these values to the end of
  \<open>start\<close>.
\<close>

theorem version_override_pins:
  assumes "env X ''VERSION_OVERRIDE'' = Some ''true''" and "setupDir_init X = Some dir"
  shows "map (js_prop (sessionData (initSession X options dir s))) versionPins
           = [JStr ''latest'', JStr ''latest'', JStr ''latest'', JStr ''latest'',
              JStr ''latest'', JStr ''latest'', JStr ''latest'', JStr ''standalone'']
       \<and> map (js_prop (sessionData (snd (start X options s)))) versionPins
           = map (js_prop (sessionData (initSession X options dir s))) versionPins"
proof -
  have a: "map (js_prop (sessionData (initSession X options dir s))) versionPins
           = [JStr ''latest'', JStr ''latest'', JStr ''latest'', JStr ''latest'',
              JStr ''latest'', JStr ''latest'', JStr ''latest'', JStr ''standalone'']"
    using assms(1) by (simp add: initSession_def versionOverride_def versionPins_def js_prop_def)
  have "k \<in> set versionPins \<Longrightarrow> k \<notin> set sessionWritten" for k
    by (auto simp: versionPins_def sessionWritten_def)
  then have "k \<in> set versionPins \<Longrightarrow>
      js_prop (sessionData (snd (start X options s))) k
        = js_prop (sessionData (initSession X options dir s)) k" for k
    using sessionData_start [OF _ assms(2), of k options s] by (simp add: js_prop_def)
  then have b: "map (js_prop (sessionData (snd (start X options s)))) versionPins
           = map (js_prop (sessionData (initSession X options dir s))) versionPins"
    by simp
  from a b show ?thesis by simp
qed

theorem version_override_pins_witness:
  "js_prop (sessionData (snd (start
      (sampleX\<lparr>env := [''HOME'' \<mapsto> ''/root'', ''VERSION_OVERRIDE'' \<mapsto> ''true'',
                       ''BITCOIN_VERSION'' \<mapsto> ''v0.19.1'']\<rparr>)
      None sample_app))) ''bitcoin_version'' = JStr ''latest''"
proof -
  let ?X = "sampleX\<lparr>env := [''HOME'' \<mapsto> ''/root'', ''VERSION_OVERRIDE'' \<mapsto> ''true'',
                       ''BITCOIN_VERSION'' \<mapsto> ''v0.19.1'']\<rparr>"
  have a: "env ?X ''VERSION_OVERRIDE'' = Some ''true''" by simp
  have b: "setupDir_init ?X = Some (JStr ''/root/cyphernode'')"
    by (simp add: setupDir_init_def env_val_def sampleX_def)
  from version_override_pins [OF a b, of None sample_app] show ?thesis
    by (simp add: versionPins_def)
qed

text \<open>
  C9 as stated fails: with the override the sparkwallet pin is \<open>standalone\<close>, not
  \<open>latest\<close>.
\<close>

theorem sparkwallet_pin_not_latest:
  "js_prop (sessionData (snd (run
      (sampleX\<lparr>env := [''HOME'' \<mapsto> ''/root'', ''VERSION_OVERRIDE'' \<mapsto> ''true'',
                       ''SPARKWALLET_VERSION'' \<mapsto> ''v0.2.9'']\<rparr>)
      None Map.empty []))) ''sparkwallet_version'' \<noteq> JStr ''latest''"
  by (simp add: eval_defs sample_defs createWithNewPassword_def
        newPasswordLoop.simps [of Map.empty] passwordPairRejected_def mismatchNotice_def
        prompt_def)

section \<open>The client key archive over whole runs\<close>

text \<open>
  Interactive runs on the sample installation, with an existing client key archive.
  The wizard is answered with the stored credential: nothing is unlinked. The wizard
  is answered with another credential: the archive is unlinked before it is written.
\<close>

lemma interactive_run_same_credential:
  "filter isFsEvent
     (trace (snd (run sampleX_complete None sample_fs
        [[''enablehelp'' \<mapsto> JBool False],
         [''gatekeeper_clientkeyspassword'' \<mapsto> JStr ''clientpw'']])))
     = [FsUnlink ''/data/exitStatus.sh'',
        ConfigSerialize ''/data/config.7z'' (JStr ''secret''),
        ArchiveWriteEntry ''/data/client.7z'' (JStr ''clientpw'') ''keys.txt'' (JStr ''info0''),
        ArchiveWriteEntry ''/data/client.7z'' (JStr ''clientpw'') ''cacert.pem'' (JStr ''CERT''),
        FsWriteFile ''/data/exitStatus.sh'' ''EXIT_STATUS=0'']"
  by code_simp

lemma interactive_run_new_credential:
  "filter isFsEvent
     (trace (snd (run sampleX_complete None sample_fs
        [[''enablehelp'' \<mapsto> JBool False],
         [''gatekeeper_clientkeyspassword'' \<mapsto> JStr ''newpw'']])))
     = [FsUnlink ''/data/exitStatus.sh'',
        ConfigSerialize ''/data/config.7z'' (JStr ''secret''),
        FsUnlink ''/data/client.7z'',
        ArchiveWriteEntry ''/data/client.7z'' (JStr ''newpw'') ''keys.txt'' (JStr ''info0''),
        ArchiveWriteEntry ''/data/client.7z'' (JStr ''newpw'') ''cacert.pem'' (JStr ''CERT''),
        FsWriteFile ''/data/exitStatus.sh'' ''EXIT_STATUS=0'']"
  by code_simp


end
